theory Spec2Isabelle
  imports Main
begin

section \<open>Python values the GUI code relies on\<close>

text \<open>
  The client is Python on top of the Tk toolkit. Exceptions are values: a method that can
  raise returns the exception beside the state it had reached, because a Python method
  that raises half way leaves its earlier assignments in place.
\<close>

datatype py_exn =
    TclError
  | AttributeError
  | KeyError
  | TypeError
  | OverflowError
  | UnidentifiedImageError
  | CallbackError string

text \<open>A registered callback is a callable of the external client: it returns, or it
  raises an exception whose \<open>str()\<close> is the given text.\<close>

datatype cb_outcome = Returns | Raises string

definition call :: "('a \<Rightarrow> cb_outcome) \<Rightarrow> 'a \<Rightarrow> py_exn option" where
  "call cb v = (case cb v of Returns \<Rightarrow> None | Raises msg \<Rightarrow> Some (CallbackError msg))"

text \<open>
  An instance attribute that the constructor never assigns does not exist until a method
  assigns it: \<open>hasattr\<close> is false and reading it raises \<open>AttributeError\<close>. Once assigned
  it holds \<open>None\<close> or a value.
\<close>

datatype 'a pyattr = NoAttr | Attr "'a option"

text \<open>\<open>str(n)\<close> of a Python integer: decimal digits, most significant first, with a
  leading minus sign for a negative number.\<close>

definition digit_char :: "nat \<Rightarrow> char" where
  "digit_char d = ''0123456789'' ! d"

text \<open>The value of a digit character, for reading a decimal string back.\<close>

definition digit_val :: "char \<Rightarrow> nat" where
  "digit_val c = of_char c - 48"

fun str_nat :: "nat \<Rightarrow> string" where
  "str_nat n = (if n < 10 then [digit_char n] else str_nat (n div 10) @ [digit_char (n mod 10)])"

declare str_nat.simps [simp del]

definition str_int :: "int \<Rightarrow> string" where
  "str_int i = (if i < 0 then CHR ''-'' # str_nat (nat (- i)) else str_nat (nat i))"



text \<open>\<open>s.startswith(p)\<close>.\<close>

definition startswith :: "string \<Rightarrow> string \<Rightarrow> bool" where
  "startswith s p = (take (length p) s = p)"

text \<open>
  A \<open>dict\<close> keeps its keys in insertion order, and assigning to a key that is present
  replaces the value where it stands.
\<close>

fun dict_set :: "('k \<times> 'v) list \<Rightarrow> 'k \<Rightarrow> 'v \<Rightarrow> ('k \<times> 'v) list" where
  "dict_set [] k v = [(k, v)]"
| "dict_set ((k', v') # kvs) k v =
     (if k' = k then (k, v) # kvs else (k', v') # dict_set kvs k v)"

text \<open>\<open>xs[-n:]\<close>: the last \<open>n\<close> elements, the whole list when \<open>n\<close> is not smaller than
  its length, and also when \<open>n = 0\<close> (the slice \<open>xs[-0:]\<close> is \<open>xs[0:]\<close>).\<close>

definition slice_last :: "nat \<Rightarrow> 'a list \<Rightarrow> 'a list" where
  "slice_last n xs = (if n = 0 then xs else drop (length xs - n) xs)"

section \<open>Tk widgets\<close>

text \<open>
  A widget object outlives the Tk window it names. While the window exists the widget is
  \<open>Live\<close>; after \<open>destroy()\<close> every Tk command on it raises \<open>TclError\<close> except
  \<open>winfo_exists\<close>, which answers false; once the application itself is gone
  \<open>winfo_exists\<close> raises too.
\<close>

datatype liveness = Live | Destroyed | AppGone

record tk_widget =
  w_live :: liveness
  w_text :: string
  w_state :: string
  w_foreground :: string

text \<open>What a caller may hand to a method expecting a widget: \<open>None\<close>, a widget, or some
  other object, which has no Tk methods and is truthy or not.\<close>

datatype py_obj = PyNone | TkWidget tk_widget | NonWidget bool

text \<open>Keyword arguments of \<open>config\<close>, in the order written: option name and value.\<close>

type_synonym kwargs = "(string \<times> string) list"

definition winfo_exists :: "tk_widget \<Rightarrow> py_exn + bool" where
  "winfo_exists w = (case w_live w of Live \<Rightarrow> Inr True | Destroyed \<Rightarrow> Inr False | AppGone \<Rightarrow> Inl TclError)"

definition cget_text :: "tk_widget \<Rightarrow> py_exn + string" where
  "cget_text w = (if w_live w = Live then Inr (w_text w) else Inl TclError)"

fun set_option :: "tk_widget \<Rightarrow> string \<times> string \<Rightarrow> tk_widget" where
  "set_option w (k, v) =
     (if k = ''text'' then w\<lparr>w_text := v\<rparr>
      else if k = ''state'' then w\<lparr>w_state := v\<rparr>
      else if k = ''foreground'' then w\<lparr>w_foreground := v\<rparr>
      else w)"

definition known_option :: "string \<Rightarrow> bool" where
  "known_option k = (k \<in> {''text'', ''state'', ''foreground''})"

text \<open>\<open>widget.config(**kwargs)\<close>: \<open>TclError\<close> on a window that is gone or on an option the
  widget does not have, otherwise every option is set.\<close>

definition config :: "tk_widget \<Rightarrow> kwargs \<Rightarrow> py_exn + tk_widget" where
  "config w kw =
     (if w_live w \<noteq> Live then Inl TclError
      else if \<not> list_all known_option (map fst kw) then Inl TclError
      else Inr (foldl set_option w kw))"

text \<open>\<open>bool(obj)\<close> and the two Tk methods, on an arbitrary object.\<close>

fun truthy :: "py_obj \<Rightarrow> bool" where
  "truthy PyNone = False"
| "truthy (TkWidget w) = True"
| "truthy (NonWidget b) = b"

fun obj_winfo_exists :: "py_obj \<Rightarrow> py_exn + bool" where
  "obj_winfo_exists (TkWidget w) = winfo_exists w"
| "obj_winfo_exists _ = Inl AttributeError"

fun obj_config :: "py_obj \<Rightarrow> kwargs \<Rightarrow> py_exn + py_obj" where
  "obj_config (TkWidget w) kw = (case config w kw of Inl e \<Rightarrow> Inl e | Inr w' \<Rightarrow> Inr (TkWidget w'))"
| "obj_config obj kw = Inl AttributeError"

subsection \<open>Defensive existence checks\<close>

text \<open>
  \<open>VideoFrame._widget_exists\<close>:
  \<^verbatim>\<open>
  try:
      if widget is None: return False
      return widget.winfo_exists()
  except (tk.TclError, AttributeError): return False
  except Exception: return False
  \<close>
  Tk answers \<open>winfo_exists\<close> with 1 or 0; the model keeps its truth value.
\<close>

definition widget_exists_body :: "py_obj \<Rightarrow> py_exn + bool" where
  "widget_exists_body widget = (if widget = PyNone then Inr False else obj_winfo_exists widget)"

definition widget_exists :: "py_obj \<Rightarrow> py_exn + bool" where
  "widget_exists widget =
     (case widget_exists_body widget of
        Inr b \<Rightarrow> Inr b
      | Inl e \<Rightarrow> (if e = TclError \<or> e = AttributeError then Inr False else Inr False))"

text \<open>
  \<open>ScreenShareFrame._safe_button_update\<close> and \<open>_safe_label_update\<close> have the same body:
  \<^verbatim>\<open>
  try:
      if button and button.winfo_exists(): button.config(**kwargs)
      else: logger.warning(...)
  except tk.TclError as e: logger.error(...)
  except Exception as e: logger.error(...)
  \<close>
  The widget is mutated in place, so the model returns the object as it is afterwards.
\<close>

definition safe_update_body :: "py_obj \<Rightarrow> kwargs \<Rightarrow> py_exn + py_obj" where
  "safe_update_body obj kw =
     (if \<not> truthy obj then Inr obj
      else case obj_winfo_exists obj of
             Inl e \<Rightarrow> Inl e
           | Inr ex \<Rightarrow> (if ex then obj_config obj kw else Inr obj))"

definition safe_button_update :: "py_obj \<Rightarrow> kwargs \<Rightarrow> py_exn + py_obj" where
  "safe_button_update button kw =
     (case safe_update_body button kw of
        Inr b \<Rightarrow> Inr b
      | Inl e \<Rightarrow> (if e = TclError then Inr button else Inr button))"

definition safe_label_update :: "py_obj \<Rightarrow> kwargs \<Rightarrow> py_exn + py_obj" where
  "safe_label_update label kw =
     (case safe_update_body label kw of
        Inr l \<Rightarrow> Inr l
      | Inl e \<Rightarrow> (if e = TclError then Inr label else Inr label))"

text \<open>
  The frames call the safe updates on their own widgets, which are never \<open>None\<close>. The
  widget afterwards is read off the result; the other results do not arise on a widget
  (lemma \<open>on_widget_safe\<close> below).
\<close>

definition on_widget :: "(py_obj \<Rightarrow> kwargs \<Rightarrow> py_exn + py_obj) \<Rightarrow> tk_widget \<Rightarrow> kwargs \<Rightarrow> tk_widget" where
  "on_widget f w kw = (case f (TkWidget w) kw of Inr (TkWidget w') \<Rightarrow> w' | _ \<Rightarrow> w)"

section \<open>VideoFrame: the four video slots (client/gui\_manager.py)\<close>

text \<open>
  \<open>video_slots\<close> is a dict from slot index to a slot dict with the keys \<open>frame\<close>,
  \<open>label\<close>, \<open>participant_id\<close> and \<open>active\<close>. Of the Tk frame the model keeps whether it
  still exists, and of the labels packed into it their texts, oldest first.
\<close>

record video_slot =
  slot_frame :: tk_widget
  slot_labels :: "string list"
  participant_id :: "string option"
  active :: bool

type_synonym slots = "(nat \<times> video_slot) list"

text \<open>An entry of \<open>participant_videos\<close>, and an entry of the \<open>participants\<close> mapping the
  client passes in: dicts in which each key may be missing.\<close>

record participant_video =
  pv_username :: "string option"
  pv_video_enabled :: "bool option"

record participant =
  p_client_id :: "string option"
  p_username :: "string option"
  p_video_enabled :: "bool option"

record video_frame =
  video_slots :: slots
  participant_videos :: "string \<rightharpoonup> participant_video"

definition blank_frame :: tk_widget where
  "blank_frame = \<lparr>w_live = Live, w_text = [], w_state = [], w_foreground = []\<rparr>"



text \<open>\<open>self._widget_exists(slot['frame'])\<close>, which does not raise, as a truth value.\<close>

definition frame_exists :: "video_slot \<Rightarrow> bool" where
  "frame_exists slot = (widget_exists (TkWidget (slot_frame slot)) = Inr True)"

text \<open>\<open>update_participant_info\<close>: create the entry if needed, then store what is not
  \<open>None\<close>.\<close>

definition update_participant_info ::
  "string \<Rightarrow> string option \<Rightarrow> bool option \<Rightarrow> video_frame \<Rightarrow> video_frame" where
  "update_participant_info client_id username video_enabled vf =
     (let pv0 = (case participant_videos vf client_id of
                   None \<Rightarrow> \<lparr>pv_username = None, pv_video_enabled = None\<rparr>
                 | Some pv \<Rightarrow> pv);
          pv1 = (if username \<noteq> None then pv0\<lparr>pv_username := username\<rparr> else pv0);
          pv2 = (if video_enabled \<noteq> None then pv1\<lparr>pv_video_enabled := video_enabled\<rparr> else pv1)
      in vf\<lparr>participant_videos := (participant_videos vf)(client_id \<mapsto> pv2)\<rparr>)"


text \<open>First loop of \<open>update_video_feeds\<close>: record username and video flag of every
  participant under its key of the mapping.\<close>

fun record_participants :: "(string \<times> participant) list \<Rightarrow> video_frame \<Rightarrow> video_frame" where
  "record_participants [] vf = vf"
| "record_participants ((pid, info) # rest) vf =
     (let username = (case p_username info of None \<Rightarrow> Some [] | Some u \<Rightarrow> Some u);
          video_enabled = (case p_video_enabled info of None \<Rightarrow> Some False | Some b \<Rightarrow> Some b)
      in record_participants rest (update_participant_info pid username video_enabled vf))"

text \<open>Second loop: every slot but slot 0 whose frame still exists goes back to a blank
  placeholder with no participant.\<close>

definition clear_slot :: "nat \<times> video_slot \<Rightarrow> nat \<times> video_slot" where
  "clear_slot = (\<lambda>(slot_id, slot).
     if slot_id > 0 then
       (if frame_exists slot
        then (slot_id, slot\<lparr>slot_labels := [[]], participant_id := None, active := False\<rparr>)
        else (slot_id, slot))
     else (slot_id, slot))"

definition clear_remote_slots :: "slots \<Rightarrow> slots" where
  "clear_remote_slots sl = map clear_slot sl"



subsection \<open>Choosing a slot for a client\<close>

text \<open>
  \<open>_get_video_slot_stable\<close>: the slot holding the client; else, for a remote client, the
  first of 1, 3, 2 that is inactive or has no participant; else the first inactive slot
  from 1 on; else \<open>None\<close>. The whole body is in a \<open>try\<close> whose handler returns \<open>None\<close>:
  the only statement that can raise is \<open>self.video_slots[slot_id]\<close> in the last loop.
\<close>

fun existing_assignment :: "slots \<Rightarrow> string \<Rightarrow> nat option" where
  "existing_assignment [] client_id = None"
| "existing_assignment ((slot_id, slot) # rest) client_id =
     (if participant_id slot = Some client_id then Some slot_id
      else existing_assignment rest client_id)"

fun preferred_slot :: "slots \<Rightarrow> nat list \<Rightarrow> nat option" where
  "preferred_slot sl [] = None"
| "preferred_slot sl (slot_id # rest) =
     (case map_of sl slot_id of
        None \<Rightarrow> preferred_slot sl rest
      | Some slot \<Rightarrow>
          (if \<not> active slot \<or> participant_id slot = None then Some slot_id
           else preferred_slot sl rest))"

fun fallback_slot :: "slots \<Rightarrow> nat list \<Rightarrow> py_exn + nat option" where
  "fallback_slot sl [] = Inr None"
| "fallback_slot sl (slot_id # rest) =
     (case map_of sl slot_id of
        None \<Rightarrow> Inl KeyError
      | Some slot \<Rightarrow> (if \<not> active slot then Inr (Some slot_id) else fallback_slot sl rest))"

definition get_video_slot_stable_body :: "string \<Rightarrow> video_frame \<Rightarrow> py_exn + nat option" where
  "get_video_slot_stable_body client_id vf =
     (case existing_assignment (video_slots vf) client_id of
        Some slot_id \<Rightarrow> Inr (Some slot_id)
      | None \<Rightarrow>
          (case (if client_id \<noteq> ''local'' then preferred_slot (video_slots vf) [1, 3, 2] else None) of
             Some slot_id \<Rightarrow> Inr (Some slot_id)
           | None \<Rightarrow> fallback_slot (video_slots vf) [1 ..< length (video_slots vf)]))"

definition get_video_slot_stable :: "string \<Rightarrow> video_frame \<Rightarrow> nat option" where
  "get_video_slot_stable client_id vf =
     (case get_video_slot_stable_body client_id vf of Inr r \<Rightarrow> r | Inl e \<Rightarrow> None)"

section \<open>AudioFrame: audio and mute toggles (client/gui\_manager.py)\<close>

text \<open>
  The effects of a callback on the external client are outside this module; the model
  records each invocation, with its argument, in the order the code makes them. The
  buttons are the ones the user has just clicked, so they exist.
\<close>

datatype audio_event = AudioCallback bool | MuteCallback bool

record audio_frame =
  enabled :: bool
  muted :: bool
  audio_button_text :: string
  mute_button_text :: string
  mute_button_state :: string
  audio_callback :: "(bool \<Rightarrow> cb_outcome) option"
  mute_callback :: "(bool \<Rightarrow> cb_outcome) option"

text \<open>\<open>AudioFrame.__init__\<close>: audio off, not muted, the mute button created disabled.\<close>

definition audio_frame_init :: audio_frame where
  "audio_frame_init =
     \<lparr>enabled = False, muted = False,
      audio_button_text = ''Enable Audio'',
      mute_button_text = ''Mute'',
      mute_button_state = ''disabled'',
      audio_callback = None, mute_callback = None\<rparr>"

definition set_audio_callback :: "(bool \<Rightarrow> cb_outcome) \<Rightarrow> audio_frame \<Rightarrow> audio_frame" where
  "set_audio_callback cb af = af\<lparr>audio_callback := Some cb\<rparr>"

definition set_mute_callback :: "(bool \<Rightarrow> cb_outcome) \<Rightarrow> audio_frame \<Rightarrow> audio_frame" where
  "set_mute_callback cb af = af\<lparr>mute_callback := Some cb\<rparr>"

text \<open>
  The result of a toggle: the frame afterwards, the callback invocations made (oldest
  first) and whether an exception of a callback left the method.
\<close>

type_synonym audio_result = "audio_frame \<times> audio_event list \<times> py_exn option"


definition toggle_audio :: "audio_frame \<Rightarrow> audio_result" where
  "toggle_audio af =
     (let af1 = af\<lparr>enabled := \<not> enabled af\<rparr>;
          button_text = (if enabled af1 then ''Disable Audio'' else ''Enable Audio'');
          af2 = af1\<lparr>audio_button_text := button_text\<rparr>;
          mute_state = (if enabled af2 then ''normal'' else ''disabled'');
          af3 = af2\<lparr>mute_button_state := mute_state\<rparr>
      in case audio_callback af3 of
           None \<Rightarrow> (af3, [], None)
         | Some cb \<Rightarrow>
             (let v = (enabled af3 \<and> \<not> muted af3)
              in (af3, [AudioCallback v], call cb v)))"

definition toggle_mute :: "audio_frame \<Rightarrow> audio_result" where
  "toggle_mute af =
     (let af1 = af\<lparr>muted := \<not> muted af\<rparr>;
          button_text = (if muted af1 then ''Unmute'' else ''Mute'');
          af2 = af1\<lparr>mute_button_text := button_text\<rparr>;
          (ev1, raised1) =
            (case mute_callback af2 of
               None \<Rightarrow> ([], None)
             | Some cb \<Rightarrow> ([MuteCallback (muted af2)], call cb (muted af2)))
      in if raised1 \<noteq> None then (af2, ev1, raised1)
         else case audio_callback af2 of
                None \<Rightarrow> (af2, ev1, None)
              | Some cb \<Rightarrow>
                  (let v = (enabled af2 \<and> \<not> muted af2)
                   in (af2, ev1 @ [AudioCallback v], call cb v)))"

text \<open>The frames an \<open>AudioFrame\<close> object can be in: built by the constructor and then
  driven by its methods, whatever the callbacks do.\<close>

inductive audio_reachable :: "audio_frame \<Rightarrow> bool" where
  init: "audio_reachable audio_frame_init"
| set_audio: "audio_reachable af \<Longrightarrow> audio_reachable (set_audio_callback cb af)"
| set_mute: "audio_reachable af \<Longrightarrow> audio_reachable (set_mute_callback cb af)"
| toggle_audio: "audio_reachable af \<Longrightarrow> audio_reachable (fst (toggle_audio af))"
| toggle_mute: "audio_reachable af \<Longrightarrow> audio_reachable (fst (toggle_mute af))"

section \<open>ScreenShareFrame: presenter controls and screen display (client/gui\_manager.py)\<close>

subsection \<open>Floating point, the canvas and the state of the frame\<close>

text \<open>
  The scaling of a screen frame is computed in Python floats. Their arithmetic is not
  modelled: the operations the code uses are parameters, and every statement below holds
  for whatever they compute.
\<close>

record 'f float_ops =
  int_div :: "int \<Rightarrow> int \<Rightarrow> 'f"
  fmul :: "'f \<Rightarrow> 'f \<Rightarrow> 'f"
  int_mul :: "int \<Rightarrow> 'f \<Rightarrow> 'f"
  fless :: "'f \<Rightarrow> 'f \<Rightarrow> bool"
  ftrunc :: "'f \<Rightarrow> int"
  f_0_99 :: 'f
  f_0_3 :: 'f

text \<open>\<open>min(a, b)\<close> and \<open>max(a, b)\<close> of Python: the first argument unless the second is
  strictly better.\<close>

definition py_min :: "'f float_ops \<Rightarrow> 'f \<Rightarrow> 'f \<Rightarrow> 'f" where
  "py_min ops a b = (if fless ops b a then b else a)"

definition py_max :: "'f float_ops \<Rightarrow> 'f \<Rightarrow> 'f \<Rightarrow> 'f" where
  "py_max ops a b = (if fless ops a b then b else a)"

text \<open>What the canvas shows: images (position and size) and texts, each under the id Tk
  gave it; and the \<open>image\<close> attribute the code sets to keep the last photo alive, of
  which the model keeps the size.\<close>

datatype canvas_item = ImageItem "int \<times> int" "int \<times> int" | TextItem "int \<times> int" string

record canvas =
  c_live :: liveness
  c_packed :: bool
  c_bg :: string
  c_items :: "(nat \<times> canvas_item) list"
  c_next_id :: nat
  c_image :: "(int \<times> int) option"

text \<open>The bytes of a frame: an image of some size, or bytes that \<open>Image.open\<close> rejects.\<close>

datatype frame_data = Frame "int \<times> int" | CorruptFrame

text \<open>What Tk reports during one call: whether canvas and label are viewable, and the
  size of the canvas.\<close>

record tk_env =
  canvas_viewable :: bool
  label_viewable :: bool
  canvas_width :: int
  canvas_height :: int

text \<open>Deferred calls registered with \<open>after(ms, ...)\<close>.\<close>

datatype ss_timer = ResetPresenterRequestTimeout | UpdateSharingStatus kwargs

record 'f ss_frame =
  is_sharing :: bool
  current_presenter_name :: "string option"
  share_button :: tk_widget
  sharing_status :: tk_widget
  screen_label :: tk_widget
  screen_label_packed :: bool
  screen_canvas :: canvas
  current_frame_data :: "frame_data option"
  current_presenter :: "string option"
  cached_canvas_size :: "(int \<times> int) pyattr"
  cached_scale :: "'f pyattr"
  cached_scale_key :: "string pyattr"
  cached_dimensions :: "(int \<times> int) pyattr"
  last_image_id :: "nat pyattr"
  cached_local_canvas_size :: "(int \<times> int) pyattr"
  cached_local_scale :: "'f pyattr"
  cached_local_scale_key :: "string pyattr"
  cached_local_dimensions :: "(int \<times> int) pyattr"
  local_image_id :: "nat pyattr"
  screen_share_callback :: "(bool \<Rightarrow> cb_outcome) option"
  ss_timers :: "(nat \<times> ss_timer) list"

text \<open>\<open>ScreenShareFrame.__init__\<close>: not sharing, no presenter, the button reading "Start
  Screen Share", the label packed and the canvas hidden, none of the cache attributes
  assigned.\<close>

definition ss_frame_init :: "'f ss_frame" where
  "ss_frame_init =
     \<lparr>is_sharing = False, current_presenter_name = None,
      share_button = \<lparr>w_live = Live, w_text = ''Start Screen Share'', w_state = ''normal'',
                       w_foreground = []\<rparr>,
      sharing_status = \<lparr>w_live = Live, w_text = ''Ready to share'', w_state = [],
                         w_foreground = []\<rparr>,
      screen_label = \<lparr>w_live = Live, w_text = ''No screen sharing active'', w_state = [],
                       w_foreground = ''white''\<rparr>,
      screen_label_packed = True,
      screen_canvas = \<lparr>c_live = Live, c_packed = False, c_bg = ''black'', c_items = [],
                        c_next_id = 1, c_image = None\<rparr>,
      current_frame_data = None, current_presenter = None,
      cached_canvas_size = NoAttr, cached_scale = NoAttr, cached_scale_key = NoAttr,
      cached_dimensions = NoAttr, last_image_id = NoAttr,
      cached_local_canvas_size = NoAttr, cached_local_scale = NoAttr,
      cached_local_scale_key = NoAttr, cached_local_dimensions = NoAttr,
      local_image_id = NoAttr,
      screen_share_callback = None, ss_timers = []\<rparr>"

definition set_screen_share_callback :: "(bool \<Rightarrow> cb_outcome) \<Rightarrow> 'f ss_frame \<Rightarrow> 'f ss_frame" where
  "set_screen_share_callback cb s = s\<lparr>screen_share_callback := Some cb\<rparr>"

text \<open>A method that can raise returns the frame as it is when the method is left, and
  the exception if one left it. \<open>seq\<close> runs a second step unless the first one raised.\<close>

type_synonym 'f step = "'f ss_frame \<Rightarrow> 'f ss_frame \<times> py_exn option"

definition seq :: "'f step \<Rightarrow> 'f step \<Rightarrow> 'f step" where
  "seq f g s = (case f s of (s1, None) \<Rightarrow> g s1 | (s1, Some e) \<Rightarrow> (s1, Some e))"

definition ok :: "('f ss_frame \<Rightarrow> 'f ss_frame) \<Rightarrow> 'f step" where
  "ok f s = (f s, None)"

text \<open>Tk commands on the label and the canvas: \<open>TclError\<close> when the window is gone.\<close>

definition label_pack_forget :: "'f step" where
  "label_pack_forget s =
     (if w_live (screen_label s) = Live then (s\<lparr>screen_label_packed := False\<rparr>, None)
      else (s, Some TclError))"

definition label_pack :: "'f step" where
  "label_pack s =
     (if w_live (screen_label s) = Live then (s\<lparr>screen_label_packed := True\<rparr>, None)
      else (s, Some TclError))"

definition canvas_pack :: "'f step" where
  "canvas_pack s =
     (if c_live (screen_canvas s) = Live
      then (s\<lparr>screen_canvas := (screen_canvas s)\<lparr>c_packed := True\<rparr>\<rparr>, None)
      else (s, Some TclError))"

definition canvas_pack_forget :: "'f step" where
  "canvas_pack_forget s =
     (if c_live (screen_canvas s) = Live
      then (s\<lparr>screen_canvas := (screen_canvas s)\<lparr>c_packed := False\<rparr>\<rparr>, None)
      else (s, Some TclError))"

definition canvas_delete_all :: "'f step" where
  "canvas_delete_all s =
     (if c_live (screen_canvas s) = Live
      then (s\<lparr>screen_canvas := (screen_canvas s)\<lparr>c_items := []\<rparr>\<rparr>, None)
      else (s, Some TclError))"

text \<open>\<open>if not self.screen_canvas.winfo_viewable(): self.screen_label.pack_forget();
  self.screen_canvas.pack(...)\<close>.\<close>

definition show_canvas :: "tk_env \<Rightarrow> 'f step" where
  "show_canvas env s =
     (if c_live (screen_canvas s) \<noteq> Live then (s, Some TclError)
      else if \<not> canvas_viewable env then seq label_pack_forget canvas_pack s
      else (s, None))"

definition name_given :: "string option \<Rightarrow> bool" where
  "name_given presenter_name = (presenter_name \<noteq> None \<and> presenter_name \<noteq> Some [])"

definition name_str :: "string option \<Rightarrow> string" where
  "name_str presenter_name = (case presenter_name of None \<Rightarrow> ''None'' | Some n \<Rightarrow> n)"

subsection \<open>Presenter display\<close>

text \<open>
  \<open>update_presenter\<close>: remember the name; while not sharing, either disable the button
  under the presenter's name and show the canvas, or enable it and show the label; then,
  while not sharing, set the text of the screen label.
\<close>

definition update_presenter :: "tk_env \<Rightarrow> string option \<Rightarrow> 'f step" where
  "update_presenter env presenter_name =
     seq (ok (\<lambda>s. s\<lparr>current_presenter_name := presenter_name\<rparr>))
    (seq (\<lambda>s.
       if name_given presenter_name \<and> \<not> is_sharing s then
         seq (ok (\<lambda>s. s\<lparr>share_button := on_widget safe_button_update (share_button s)
                           [(''state'', ''disabled''), (''text'', name_str presenter_name @ '' is sharing'')]\<rparr>))
        (seq (ok (\<lambda>s. s\<lparr>sharing_status := on_widget safe_label_update (sharing_status s)
                           [(''text'', name_str presenter_name @ '' is sharing''), (''foreground'', ''blue'')]\<rparr>))
             (show_canvas env)) s
       else if \<not> name_given presenter_name \<and> \<not> is_sharing s then
         seq (ok (\<lambda>s. s\<lparr>share_button := on_widget safe_button_update (share_button s)
                           [(''state'', ''normal''), (''text'', ''Start Screen Share'')]\<rparr>))
        (seq (ok (\<lambda>s. s\<lparr>sharing_status := on_widget safe_label_update (sharing_status s)
                           [(''text'', ''Ready to share''), (''foreground'', ''black'')]\<rparr>))
        (seq canvas_pack_forget label_pack)) s
       else (s, None))
     (ok (\<lambda>s.
       if \<not> is_sharing s then
         (if name_given presenter_name
          then s\<lparr>screen_label := on_widget safe_label_update (screen_label s)
                   [(''text'', ''Waiting for '' @ name_str presenter_name @ '' to share'')]\<rparr>
          else s\<lparr>screen_label := on_widget safe_label_update (screen_label s)
                   [(''text'', ''No screen sharing active'')]\<rparr>)
       else s)))"

subsection \<open>The share button and the request timeout\<close>

text \<open>
  \<open>_toggle_screen_share\<close>. The button text is read under an inner \<open>try\<close> that returns
  when the button is gone. The rest is under the outer \<open>try\<close>, whose handler puts the
  button back to "Request Presenter Role": the only statement that can raise there is the
  callback. The result lists the arguments the callback was invoked with.
\<close>

definition toggle_body :: "string \<Rightarrow> 'f ss_frame \<Rightarrow> 'f ss_frame \<times> bool list \<times> py_exn option" where
  "toggle_body button_text s =
     (if button_text = ''Request Presenter Role'' then
        (let s1 = s\<lparr>share_button := on_widget safe_button_update (share_button s)
                       [(''state'', ''disabled''), (''text'', ''Requesting...'')]\<rparr>;
             s2 = s1\<lparr>sharing_status := on_widget safe_label_update (sharing_status s1)
                       [(''text'', ''Requesting presenter role...''), (''foreground'', ''orange'')]\<rparr>
         in case screen_share_callback s2 of
              None \<Rightarrow> (s2, [], None)
            | Some cb \<Rightarrow>
                (case call cb True of
                   Some e \<Rightarrow> (s2, [True], Some e)
                 | None \<Rightarrow>
                     (s2\<lparr>ss_timers := ss_timers s2 @ [(10000, ResetPresenterRequestTimeout)]\<rparr>,
                      [True], None)))
      else if startswith button_text ''Start'' then
        (let s1 = s\<lparr>share_button := on_widget safe_button_update (share_button s)
                       [(''state'', ''disabled''), (''text'', ''Starting...'')]\<rparr>;
             s2 = s1\<lparr>sharing_status := on_widget safe_label_update (sharing_status s1)
                       [(''text'', ''Starting screen share...''), (''foreground'', ''orange'')]\<rparr>
         in case screen_share_callback s2 of
              None \<Rightarrow> (s2, [], None)
            | Some cb \<Rightarrow> (s2, [True], call cb True))
      else if startswith button_text ''Stop'' then
        (case screen_share_callback s of
           None \<Rightarrow> (s, [], None)
         | Some cb \<Rightarrow> (s, [False], call cb False))
      else (s, [], None))"

definition toggle_screen_share :: "'f ss_frame \<Rightarrow> 'f ss_frame \<times> bool list \<times> py_exn option" where
  "toggle_screen_share s =
     (if w_live (share_button s) \<noteq> Live then (s, [], None)
      else case toggle_body (w_text (share_button s)) s of
             (s1, calls, None) \<Rightarrow> (s1, calls, None)
           | (s1, calls, Some e) \<Rightarrow>
               (let s2 = s1\<lparr>share_button := on_widget safe_button_update (share_button s1)
                              [(''state'', ''normal''), (''text'', ''Request Presenter Role'')]\<rparr>;
                    s3 = s2\<lparr>sharing_status := on_widget safe_label_update (sharing_status s2)
                              [(''text'', ''Error - try again''), (''foreground'', ''red'')]\<rparr>
                in (s3, calls, None)))"

text \<open>
  \<open>_reset_presenter_request_timeout\<close>, the call deferred by 10000 ms:
  \<^verbatim>\<open>
  if self.share_button.cget('text') == "Requesting...":
      self._safe_button_update(self.share_button, state='normal', text="Request Presenter Role")
      self._safe_label_update(self.sharing_status, text="Request timed out - try again", foreground='red')
      self.after(3000, lambda: self._safe_label_update(self.sharing_status, ...))
  \<close>
\<close>

definition reset_presenter_request_timeout :: "'f step" where
  "reset_presenter_request_timeout s =
     (case cget_text (share_button s) of
        Inl e \<Rightarrow> (s, Some e)
      | Inr button_text \<Rightarrow>
          (if button_text = ''Requesting...'' then
             (let s1 = s\<lparr>share_button := on_widget safe_button_update (share_button s)
                            [(''state'', ''normal''), (''text'', ''Request Presenter Role'')]\<rparr>;
                  s2 = s1\<lparr>sharing_status := on_widget safe_label_update (sharing_status s1)
                            [(''text'', ''Request timed out - try again''), (''foreground'', ''red'')]\<rparr>
              in (s2\<lparr>ss_timers := ss_timers s2 @
                        [(3000, UpdateSharingStatus
                            [(''text'', ''Ready to request presenter role''),
                             (''foreground'', ''black'')])]\<rparr>, None))
           else (s, None)))"

text \<open>Tk running a deferred call when its time has come.\<close>

fun run_timer :: "ss_timer \<Rightarrow> 'f step" where
  "run_timer ResetPresenterRequestTimeout s = reset_presenter_request_timeout s"
| "run_timer (UpdateSharingStatus kw) s =
     (s\<lparr>sharing_status := on_widget safe_label_update (sharing_status s) kw\<rparr>, None)"

subsection \<open>Displaying a screen frame\<close>

text \<open>The key of the scaling cache, \<open>f"{img_width}x{img_height}_{canvas_width}x{canvas_height}"\<close>.\<close>

definition scale_key :: "int \<Rightarrow> int \<Rightarrow> int \<Rightarrow> int \<Rightarrow> string" where
  "scale_key img_width img_height cw ch =
     str_int img_width @ ''x'' @ str_int img_height @ ''_'' @ str_int cw @ ''x'' @ str_int ch"

text \<open>
  The computation under a cache miss:
  \<^verbatim>\<open>
  scale_w = canvas_width / img_width
  scale_h = canvas_height / img_height
  scale = min(scale_w, scale_h) * 0.99
  scale = max(scale, 0.3)
  new_width = int(img_width * scale)
  new_height = int(img_height * scale)
  new_width = max(new_width, 200)
  new_height = max(new_height, 150)
  \<close>
  It yields the scale and the dimensions.
\<close>

definition scale_dims :: "'f float_ops \<Rightarrow> int \<times> int \<Rightarrow> int \<times> int \<Rightarrow> 'f \<times> (int \<times> int)" where
  "scale_dims ops = (\<lambda>(img_width, img_height) (cw, ch).
     (let scale_w = int_div ops cw img_width;
          scale_h = int_div ops ch img_height;
          scale0 = fmul ops (py_min ops scale_w scale_h) (f_0_99 ops);
          scale = py_max ops scale0 (f_0_3 ops);
          new_width = ftrunc ops (int_mul ops img_width scale);
          new_height = ftrunc ops (int_mul ops img_height scale)
      in (scale, (max new_width 200, max new_height 150))))"

text \<open>\<open>_reset_screen_cache\<close>: all ten cache attributes become \<open>None\<close> and the canvas is
  cleared; an exception (the canvas being gone) is caught and logged.\<close>

definition reset_screen_cache :: "'f ss_frame \<Rightarrow> 'f ss_frame" where
  "reset_screen_cache s =
     (let s1 = s\<lparr>cached_canvas_size := Attr None, cached_scale := Attr None,
                  cached_scale_key := Attr None, cached_dimensions := Attr None,
                  last_image_id := Attr None,
                  cached_local_canvas_size := Attr None, cached_local_scale := Attr None,
                  cached_local_scale_key := Attr None, cached_local_dimensions := Attr None,
                  local_image_id := Attr None\<rparr>
      in fst (canvas_delete_all s1))"

text \<open>\<open>_show_black_screen\<close>, for a frame of \<open>None\<close>: one text on an emptied canvas; nothing
  at all when the canvas is gone, since the first statement then raises into the
  method's own handler.\<close>

definition show_black_screen :: "tk_env \<Rightarrow> 'f ss_frame \<Rightarrow> 'f ss_frame" where
  "show_black_screen env s =
     (if c_live (screen_canvas s) \<noteq> Live then s
      else
        (let c = screen_canvas s;
             c1 = c\<lparr>c_items := [(c_next_id c,
                                   TextItem (canvas_width env div 2, canvas_height env div 2)
                                     ''No screen sharing active'')],
                    c_next_id := c_next_id c + 1, c_bg := ''black''\<rparr>
         in s\<lparr>screen_canvas := c1,
               screen_label := on_widget safe_label_update (screen_label s)
                                 [(''text'', ''No screen sharing active'')],
               current_presenter_name := None\<rparr>))"

definition store_current_frame :: "frame_data \<Rightarrow> string option \<Rightarrow> 'f ss_frame \<Rightarrow> 'f ss_frame" where
  "store_current_frame fd presenter_name s =
     s\<lparr>current_frame_data := Some fd, current_presenter := presenter_name\<rparr>"

text \<open>\<open>Image.open(io.BytesIO(frame_data))\<close> and \<open>image.size\<close>.\<close>

fun open_image :: "frame_data \<Rightarrow> py_exn + int \<times> int" where
  "open_image (Frame sz) = Inr sz"
| "open_image CorruptFrame = Inl UnidentifiedImageError"

text \<open>
  The canvas size: the cached one if there is one, else what Tk reports, with the
  fallback of at least 1000 by 650 when either side is at most 10, and then cached.
\<close>

definition measured_canvas_size :: "tk_env \<Rightarrow> int \<times> int" where
  "measured_canvas_size env =
     (if canvas_width env \<le> 10 \<or> canvas_height env \<le> 10
      then (max (canvas_width env) 1000, max (canvas_height env) 650)
      else (canvas_width env, canvas_height env))"

definition get_canvas_size :: "tk_env \<Rightarrow> 'f ss_frame \<Rightarrow> 'f ss_frame \<times> (int \<times> int)" where
  "get_canvas_size env s =
     (case cached_canvas_size s of
        Attr (Some sz) \<Rightarrow> (s, sz)
      | _ \<Rightarrow> (s\<lparr>cached_canvas_size := Attr (Some (measured_canvas_size env))\<rparr>,
              measured_canvas_size env))"

text \<open>
  The dimensions to display, with the cache:
  \<^verbatim>\<open>
  if not hasattr(self, '_cached_scale') or self._cached_scale_key != scale_key:
      ... compute, then cache scale, key and dimensions ...
  else:
      new_width, new_height = self._cached_dimensions
  \<close>
  Reading an attribute that was never assigned raises \<open>AttributeError\<close>, unpacking
  \<open>None\<close> raises \<open>TypeError\<close>.
\<close>

definition compute_dimensions ::
  "'f float_ops \<Rightarrow> int \<times> int \<Rightarrow> int \<times> int \<Rightarrow> 'f ss_frame \<Rightarrow> 'f ss_frame \<times> (int \<times> int)" where
  "compute_dimensions ops img cv s =
     (let (scale, dims) = scale_dims ops img cv
      in (s\<lparr>cached_scale := Attr (Some scale),
              cached_scale_key := Attr (Some (scale_key (fst img) (snd img) (fst cv) (snd cv))),
              cached_dimensions := Attr (Some dims)\<rparr>, dims))"

definition get_dimensions ::
  "'f float_ops \<Rightarrow> int \<times> int \<Rightarrow> int \<times> int \<Rightarrow> 'f ss_frame \<Rightarrow> py_exn + 'f ss_frame \<times> (int \<times> int)" where
  "get_dimensions ops img cv s =
     (if cached_scale s = NoAttr then Inr (compute_dimensions ops img cv s)
      else case cached_scale_key s of
             NoAttr \<Rightarrow> Inl AttributeError
           | Attr k \<Rightarrow>
               (if k \<noteq> Some (scale_key (fst img) (snd img) (fst cv) (snd cv))
                then Inr (compute_dimensions ops img cv s)
                else case cached_dimensions s of
                       NoAttr \<Rightarrow> Inl AttributeError
                     | Attr None \<Rightarrow> Inl TypeError
                     | Attr (Some dims) \<Rightarrow> Inr (s, dims)))"

text \<open>
  Putting the resized image on the canvas, centred: a new image item on an emptied
  canvas when there is no image id yet, else new coordinates and a new image for the
  item of that id (Tk does nothing when no item has the id). The photo is kept in the
  canvas's \<open>image\<close> attribute.
\<close>

definition draw_image :: "int \<times> int \<Rightarrow> int \<times> int \<Rightarrow> 'f ss_frame \<Rightarrow> 'f ss_frame" where
  "draw_image = (\<lambda>(cw, ch) (new_width, new_height) s.
     (let x = max 0 ((cw - new_width) div 2);
          y = max 0 ((ch - new_height) div 2);
          c = screen_canvas s
      in case last_image_id s of
           Attr (Some image_id) \<Rightarrow>
             s\<lparr>screen_canvas :=
                  c\<lparr>c_items := map (\<lambda>(i, item).
                                    case item of
                                      ImageItem pos sz \<Rightarrow>
                                        if i = image_id
                                        then (i, ImageItem (x, y) (new_width, new_height))
                                        else (i, item)
                                    | TextItem pos txt \<Rightarrow> (i, item)) (c_items c),
                    c_image := Some (new_width, new_height)\<rparr>\<rparr>
         | _ \<Rightarrow>
             s\<lparr>screen_canvas :=
                  c\<lparr>c_items := [(c_next_id c, ImageItem (x, y) (new_width, new_height))],
                    c_next_id := c_next_id c + 1,
                    c_image := Some (new_width, new_height)\<rparr>,
               last_image_id := Attr (Some (c_next_id c))\<rparr>))"

text \<open>
  The statements of \<open>display_screen_frame\<close> under \<open>try\<close>, for frame data that is not
  \<open>None\<close>. An image without a positive width and height ends the method at once.
\<close>

definition display_prepare :: "tk_env \<Rightarrow> frame_data \<Rightarrow> string option \<Rightarrow> 'f step" where
  "display_prepare env fd presenter_name =
     seq (ok (store_current_frame fd presenter_name))
       (\<lambda>s. if current_presenter_name s \<noteq> presenter_name
            then update_presenter env presenter_name s else (s, None))"

definition display_scaled :: "'f float_ops \<Rightarrow> tk_env \<Rightarrow> int \<times> int \<Rightarrow> 'f step" where
  "display_scaled ops env img =
     seq (show_canvas env)
       (\<lambda>s. (let (s1, cv) = get_canvas_size env s
              in if fst img \<le> 0 \<or> snd img \<le> 0 then (s1, None)
                 else case get_dimensions ops img cv s1 of
                        Inl e \<Rightarrow> (s1, Some e)
                      | Inr (s2, dims) \<Rightarrow> (draw_image cv dims s2, None)))"

definition display_try ::
  "'f float_ops \<Rightarrow> tk_env \<Rightarrow> frame_data \<Rightarrow> string option \<Rightarrow> 'f step" where
  "display_try ops env fd presenter_name =
     seq (display_prepare env fd presenter_name)
       (\<lambda>s. case open_image fd of
               Inl e \<Rightarrow> (s, Some e)
             | Inr img \<Rightarrow> display_scaled ops env img s)"

text \<open>The handler: forget canvas size, scale and image id, show the error on the screen
  label and bring the label back if it is not viewable.\<close>

definition display_except :: "tk_env \<Rightarrow> string option \<Rightarrow> 'f step" where
  "display_except env presenter_name s =
     (let s1 = s\<lparr>cached_canvas_size := Attr None, cached_scale := Attr None,
                  last_image_id := Attr None\<rparr>;
          s2 = s1\<lparr>screen_label := on_widget safe_label_update (screen_label s1)
                    [(''text'', ''Error displaying screen from '' @ name_str presenter_name)]\<rparr>
      in if w_live (screen_label s2) \<noteq> Live then (s2, Some TclError)
         else if \<not> label_viewable env then seq canvas_pack_forget label_pack s2
         else (s2, None))"

definition display_screen_frame ::
  "'f float_ops \<Rightarrow> tk_env \<Rightarrow> frame_data option \<Rightarrow> string option \<Rightarrow> 'f step" where
  "display_screen_frame ops env frame_data presenter_name s =
     (case frame_data of
        None \<Rightarrow> (show_black_screen env s, None)
      | Some fd \<Rightarrow>
          (case display_try ops env fd presenter_name s of
             (s1, None) \<Rightarrow> (s1, None)
           | (s1, Some e) \<Rightarrow> display_except env presenter_name s1))"

text \<open>Tk destroying the windows of the frame, or the whole application.\<close>

definition windows_gone :: "liveness \<Rightarrow> 'f ss_frame \<Rightarrow> 'f ss_frame" where
  "windows_gone l s =
     s\<lparr>share_button := (share_button s)\<lparr>w_live := l\<rparr>,
       sharing_status := (sharing_status s)\<lparr>w_live := l\<rparr>,
       screen_label := (screen_label s)\<lparr>w_live := l\<rparr>,
       screen_canvas := (screen_canvas s)\<lparr>c_live := l\<rparr>\<rparr>"

text \<open>
  The states of a \<open>ScreenShareFrame\<close>: built by the constructor and driven by the
  methods above, under one floating-point arithmetic. The other methods of the class
  write the attributes of the scaling cache only through \<open>_reset_screen_cache\<close>.
\<close>

inductive ss_reachable :: "'f float_ops \<Rightarrow> 'f ss_frame \<Rightarrow> bool" for ops :: "'f float_ops" where
  init: "ss_reachable ops ss_frame_init"
| callback: "ss_reachable ops s \<Longrightarrow> ss_reachable ops (set_screen_share_callback cb s)"
| presenter: "ss_reachable ops s \<Longrightarrow> ss_reachable ops (fst (update_presenter env presenter_name s))"
| toggle: "ss_reachable ops s \<Longrightarrow> ss_reachable ops (fst (toggle_screen_share s))"
| timer: "ss_reachable ops s \<Longrightarrow> ss_reachable ops (fst (run_timer t s))"
| reset_cache: "ss_reachable ops s \<Longrightarrow> ss_reachable ops (reset_screen_cache s)"
| display: "ss_reachable ops s \<Longrightarrow>
     ss_reachable ops (fst (display_screen_frame ops env frame_data presenter_name s))"
| gone: "ss_reachable ops s \<Longrightarrow> ss_reachable ops (windows_gone l s)"

text \<open>The attributes of the scaling cache.\<close>

definition scaling_cache ::
  "'f ss_frame \<Rightarrow> (int \<times> int) pyattr \<times> 'f pyattr \<times> string pyattr \<times> (int \<times> int) pyattr" where
  "scaling_cache s = (cached_canvas_size s, cached_scale s, cached_scale_key s, cached_dimensions s)"

text \<open>The scaling cache is consistent when a cached key is the key of some image and
  canvas size and the cached dimensions are the ones computed for them.\<close>

definition cache_consistent :: "'f float_ops \<Rightarrow> 'f ss_frame \<Rightarrow> bool" where
  "cache_consistent ops s =
     (\<forall>k. cached_scale_key s = Attr (Some k) \<longrightarrow>
        (\<exists>iw ih cw ch. k = scale_key iw ih cw ch
           \<and> cached_dimensions s = Attr (Some (snd (scale_dims ops (iw, ih) (cw, ch))))))"

section \<open>ChatFrame: history and sending (client/gui\_manager.py)\<close>

text \<open>
  A history entry is a dict; \<open>add_message\<close> builds it with all five keys, a list handed
  to \<open>load_chat_history\<close> may lack any of them. A timestamp is a \<open>datetime\<close>, here the
  microseconds since \<open>datetime.min\<close>.
\<close>

record chat_entry =
  e_username :: "string option"
  e_message :: "string option"
  e_timestamp :: "nat option"
  e_is_own_message :: "bool option"
  e_message_type :: "string option"

text \<open>A deferred call registered with \<open>after(ms, ...)\<close>; the chat frame registers only
  the reset of its status label.\<close>

datatype chat_timer = ResetStatus

record chat_frame =
  chat_history :: "chat_entry list"
  max_history_size :: nat
  chat_display :: "(string \<times> string) list"
  message_entry :: string
  char_counter :: "string \<times> string"
  status_label :: "string \<times> string"
  message_callback :: "(string \<Rightarrow> cb_outcome) option"
  chat_timers :: "(nat \<times> chat_timer) list"

text \<open>\<open>ChatFrame.__init__\<close>: empty history, limit 500, no callback.\<close>

definition chat_frame_init :: chat_frame where
  "chat_frame_init =
     \<lparr>chat_history = [], max_history_size = 500, chat_display = [],
      message_entry = [], char_counter = (''0/1000'', ''black''),
      status_label = (''Ready'', ''black''), message_callback = None, chat_timers = []\<rparr>"

definition set_message_callback :: "(string \<Rightarrow> cb_outcome) \<Rightarrow> chat_frame \<Rightarrow> chat_frame" where
  "set_message_callback cb cf = cf\<lparr>message_callback := Some cb\<rparr>"

text \<open>\<open>timestamp.strftime("%H:%M:%S")\<close>.\<close>

definition two_digits :: "nat \<Rightarrow> string" where
  "two_digits n = (if n < 10 then CHR ''0'' # str_nat n else str_nat n)"

definition strftime_hms :: "nat \<Rightarrow> string" where
  "strftime_hms t =
     (let secs = t div 1000000
      in two_digits ((secs div 3600) mod 24) @ '':'' @ two_digits ((secs div 60) mod 60)
           @ '':'' @ two_digits (secs mod 60))"

text \<open>
  \<open>_display_message\<close>: reads \<open>username\<close>, \<open>message\<close> and \<open>timestamp\<close> by subscript
  (\<open>KeyError\<close> when one is missing) and the two others with defaults, then appends the
  tagged pieces of text to the display.
\<close>

definition display_message :: "chat_entry \<Rightarrow> chat_frame \<Rightarrow> py_exn + chat_frame" where
  "display_message entry cf =
     (case e_username entry of
        None \<Rightarrow> Inl KeyError
      | Some username \<Rightarrow>
     (case e_message entry of
        None \<Rightarrow> Inl KeyError
      | Some message \<Rightarrow>
     (case e_timestamp entry of
        None \<Rightarrow> Inl KeyError
      | Some timestamp \<Rightarrow>
          (let is_own_message = (case e_is_own_message entry of None \<Rightarrow> False | Some b \<Rightarrow> b);
               message_type = (case e_message_type entry of None \<Rightarrow> ''chat'' | Some t \<Rightarrow> t);
               stamp = [(''['' @ strftime_hms timestamp @ ''] '', ''timestamp'')];
               body =
                 (if message_type = ''system'' then [(''* '' @ message @ [CHR 0x0A], ''system'')]
                  else if message_type = ''error'' then [(''! '' @ message @ [CHR 0x0A], ''error'')]
                  else
                    (let username_tag = (if is_own_message then ''own_message'' else ''username'');
                         message_tag = (if is_own_message then ''own_message'' else ''message'')
                     in [(username @ '': '', username_tag), (message @ [CHR 0x0A], message_tag)]))
           in Inr (cf\<lparr>chat_display := chat_display cf @ stamp @ body\<rparr>)))))"

text \<open>\<open>_show_status\<close>: the text in red or green, and a reset of the label in 3000 ms.\<close>

definition show_status :: "string \<Rightarrow> bool \<Rightarrow> chat_frame \<Rightarrow> chat_frame" where
  "show_status message is_error cf =
     (let color = (if is_error then ''red'' else ''green'')
      in cf\<lparr>status_label := (message, color),
             chat_timers := chat_timers cf @ [(3000, ResetStatus)]\<rparr>)"


text \<open>
  \<open>add_message\<close>: append the entry, keep the last \<open>max_history_size\<close> entries when the
  history has grown beyond that, display the entry. \<open>now\<close> is \<open>datetime.now()\<close>.
\<close>

definition add_message ::
  "nat \<Rightarrow> string \<Rightarrow> string \<Rightarrow> nat option \<Rightarrow> bool \<Rightarrow> string \<Rightarrow> chat_frame \<Rightarrow> chat_frame" where
  "add_message now username message timestamp is_own_message message_type cf =
     (let ts = (case timestamp of None \<Rightarrow> now | Some t \<Rightarrow> t);
          entry = \<lparr>e_username = Some username, e_message = Some message, e_timestamp = Some ts,
                   e_is_own_message = Some is_own_message, e_message_type = Some message_type\<rparr>;
          cf1 = cf\<lparr>chat_history := chat_history cf @ [entry]\<rparr>;
          cf2 = (if length (chat_history cf1) > max_history_size cf1
                 then cf1\<lparr>chat_history := slice_last (max_history_size cf1) (chat_history cf1)\<rparr>
                 else cf1)
      in case display_message entry cf2 of Inr cf3 \<Rightarrow> cf3 | Inl e \<Rightarrow> cf2)"

definition add_system_message :: "nat \<Rightarrow> string \<Rightarrow> nat option \<Rightarrow> chat_frame \<Rightarrow> chat_frame" where
  "add_system_message now message timestamp cf =
     add_message now ''System'' message timestamp False ''system'' cf"

definition add_error_message :: "nat \<Rightarrow> string \<Rightarrow> nat option \<Rightarrow> chat_frame \<Rightarrow> chat_frame" where
  "add_error_message now message timestamp cf =
     add_message now ''Error'' message timestamp False ''error'' cf"

text \<open>An entry that has the three keys \<open>_display_message\<close> reads by subscript.\<close>

definition complete_entry :: "chat_entry \<Rightarrow> bool" where
  "complete_entry e = (e_username e \<noteq> None \<and> e_message e \<noteq> None \<and> e_timestamp e \<noteq> None)"

text \<open>
  \<open>load_chat_history\<close>: clear display and history, sort the given entries by timestamp
  (\<open>sorted\<close> is stable, a missing timestamp counts as \<open>datetime.min\<close>), then display and
  append each one. A \<open>KeyError\<close> of \<open>_display_message\<close> leaves the method with what was
  loaded so far.
\<close>

fun load_entries :: "chat_entry list \<Rightarrow> chat_frame \<Rightarrow> chat_frame \<times> py_exn option" where
  "load_entries [] cf = (cf, None)"
| "load_entries (entry # rest) cf =
     (case display_message entry cf of
        Inl e \<Rightarrow> (cf, Some e)
      | Inr cf1 \<Rightarrow> load_entries rest (cf1\<lparr>chat_history := chat_history cf1 @ [entry]\<rparr>))"

definition load_chat_history :: "chat_entry list \<Rightarrow> chat_frame \<Rightarrow> chat_frame \<times> py_exn option" where
  "load_chat_history history cf =
     (let cf1 = cf\<lparr>chat_display := [], chat_history := []\<rparr>;
          sorted_history = sort_key (\<lambda>x. case e_timestamp x of None \<Rightarrow> 0 | Some t \<Rightarrow> t) history
      in case load_entries sorted_history cf1 of
           (cf2, Some e) \<Rightarrow> (cf2, Some e)
         | (cf2, None) \<Rightarrow>
             (show_status (''Loaded '' @ str_nat (length history) @ '' messages from history'')
                False cf2, None))"




section \<open>FileTransferFrame: the list of shared files (client/gui\_manager.py)\<close>

text \<open>
  The size of a file is shown with \<open>f"{filesize / 1024:.1f}"\<close>: a true division of two
  integers, which gives the double nearest to the quotient (ties to even, and
  \<open>OverflowError\<close> when that is beyond the doubles), formatted with one decimal, which
  gives the multiple of a tenth nearest to that double (ties to even). Both divisors are
  powers of two, so a double is kept exactly as its numerator over the divisor.
\<close>

fun bit_length :: "nat \<Rightarrow> nat" where
  "bit_length n = (if n = 0 then 0 else Suc (bit_length (n div 2)))"

declare bit_length.simps [simp del]

text \<open>The quotient \<open>a / b\<close> rounded to the nearest integer, a tie to the even one.\<close>

definition round_half_even :: "nat \<Rightarrow> nat \<Rightarrow> nat" where
  "round_half_even a b =
     (let q = a div b; r = a mod b
      in if 2 * r > b \<or> (2 * r = b \<and> odd q) then q + 1 else q)"

text \<open>\<open>n / 2 ** p\<close> for \<open>n \<ge> 0\<close>: the numerator \<open>a\<close> of the resulting double \<open>a / 2 ** p\<close>.
  An integer of at most 53 bits is a double; a longer one is rounded to 53 bits.\<close>

definition true_div_pow2 :: "nat \<Rightarrow> nat \<Rightarrow> py_exn + nat" where
  "true_div_pow2 n p =
     (if bit_length n \<le> 53 then Inr n
      else (let k = bit_length n - 53;
                a = round_half_even n (2 ^ k) * 2 ^ k
            in if a \<ge> 2 ^ (1024 + p) then Inl OverflowError else Inr a))"

text \<open>\<open>f"{x:.1f}"\<close> for the double \<open>x = a / 2 ** p\<close>.\<close>

definition one_decimal :: "nat \<Rightarrow> string" where
  "one_decimal tenths = str_nat (tenths div 10) @ ''.'' @ str_nat (tenths mod 10)"

definition format_1f :: "nat \<Rightarrow> nat \<Rightarrow> string" where
  "format_1f a p = one_decimal (round_half_even (10 * a) (2 ^ p))"

record file_info =
  filename :: string
  filesize :: int
  uploader :: string

record file_transfer_frame =
  shared_files :: "(string \<times> file_info) list"
  file_listbox :: "string list"

definition file_transfer_frame_init :: file_transfer_frame where
  "file_transfer_frame_init = \<lparr>shared_files = [], file_listbox = []\<rparr>"

text \<open>
  The size text of \<open>_update_file_list\<close>:
  \<^verbatim>\<open>
  if filesize < 1024: size_str = f"{filesize} B"
  elif filesize < 1024 * 1024: size_str = f"{filesize / 1024:.1f} KB"
  else: size_str = f"{filesize / (1024 * 1024):.1f} MB"
  \<close>
\<close>

definition size_str :: "int \<Rightarrow> py_exn + string" where
  "size_str fsize =
     (if fsize < 1024 then Inr (str_int fsize @ '' B'')
      else if fsize < 1024 * 1024
      then (case true_div_pow2 (nat fsize) 10 of
              Inl e \<Rightarrow> Inl e
            | Inr a \<Rightarrow> Inr (format_1f a 10 @ '' KB''))
      else (case true_div_pow2 (nat fsize) 20 of
              Inl e \<Rightarrow> Inl e
            | Inr a \<Rightarrow> Inr (format_1f a 20 @ '' MB'')))"

text \<open>The loop of \<open>_update_file_list\<close> over \<open>shared_files.items()\<close>, inserting one line
  per file at the end of the listbox; an exception leaves the lines inserted so far.\<close>

fun insert_files :: "(string \<times> file_info) list \<Rightarrow> string list \<Rightarrow> string list \<times> py_exn option" where
  "insert_files [] listbox = (listbox, None)"
| "insert_files ((file_id, info) # rest) listbox =
     (case size_str (filesize info) of
        Inl e \<Rightarrow> (listbox, Some e)
      | Inr sz \<Rightarrow>
          (let display_text = filename info @ '' ('' @ sz @ '') - '' @ uploader info
           in insert_files rest (listbox @ [display_text])))"

definition update_file_list :: "file_transfer_frame \<Rightarrow> file_transfer_frame \<times> py_exn option" where
  "update_file_list ft =
     (case insert_files (shared_files ft) [] of
        (listbox, exn) \<Rightarrow> (ft\<lparr>file_listbox := listbox\<rparr>, exn))"

definition add_shared_file ::
  "string \<Rightarrow> string \<Rightarrow> int \<Rightarrow> string \<Rightarrow> file_transfer_frame \<Rightarrow> file_transfer_frame \<times> py_exn option" where
  "add_shared_file file_id fname fsize upl ft =
     update_file_list
       (ft\<lparr>shared_files :=
             dict_set (shared_files ft) file_id
               \<lparr>filename = fname, filesize = fsize, uploader = upl\<rparr>\<rparr>)"

text \<open>The line the listbox shows for a file whose size is below \<open>2 ** 53\<close>: the size in
  bytes, or in KB or MB as the nearest multiple of a tenth.\<close>

definition size_text :: "int \<Rightarrow> string" where
  "size_text fsize =
     (if fsize < 1024 then str_int fsize @ '' B''
      else if fsize < 1048576 then one_decimal (round_half_even (10 * nat fsize) 1024) @ '' KB''
      else one_decimal (round_half_even (10 * nat fsize) 1048576) @ '' MB'')"

definition file_line :: "string \<times> file_info \<Rightarrow> string" where
  "file_line = (\<lambda>(file_id, info).
     filename info @ '' ('' @ size_text (filesize info) @ '') - '' @ uploader info)"

section \<open>Properties of the decimal rendering\<close>

text \<open>\<open>str\<close> of an integer can be read back, so it is injective, and it contains
  neither of the separators used in the key of the scaling cache.\<close>

lemma digit_char_val: "d < 10 \<Longrightarrow> digit_val (digit_char d) = d"
proof -
  assume "d < 10"
  then have "d \<in> set [0 ..< 10]" by simp
  also have "[0 ..< 10] = [0, 1, 2, 3, 4, 5, 6, 7, 8, 9 :: nat]" by (simp add: upt_rec)
  finally have "d = 0 \<or> d = 1 \<or> d = 2 \<or> d = 3 \<or> d = 4 \<or> d = 5 \<or> d = 6 \<or> d = 7 \<or> d = 8 \<or> d = 9"
    by simp
  then show ?thesis
    by (elim disjE) (simp_all add: digit_val_def digit_char_def)
qed

lemma digit_char_range: "d < 10 \<Longrightarrow> digit_char d \<in> set ''0123456789''"
  unfolding digit_char_def by (rule nth_mem) simp

lemma str_nat_chars: "set (str_nat n) \<subseteq> set ''0123456789''"
proof (induction n rule: str_nat.induct)
  case (1 n)
  show ?case
  proof (cases "n < 10")
    case True
    then show ?thesis using digit_char_range [of n] by (subst str_nat.simps) simp
  next
    case False
    have "n mod 10 < 10" by simp
    from digit_char_range [OF this] 1 [OF False] False show ?thesis
      by (subst str_nat.simps) simp
  qed
qed

lemma str_nat_val: "foldl (\<lambda>a c. 10 * a + digit_val c) 0 (str_nat n) = n"
proof (induction n rule: str_nat.induct)
  case (1 n)
  show ?case
  proof (cases "n < 10")
    case True
    then show ?thesis by (subst str_nat.simps) (simp add: digit_char_val)
  next
    case False
    have "n mod 10 < 10" by simp
    from digit_char_val [OF this] 1 [OF False] False show ?thesis
      by (subst str_nat.simps) simp
  qed
qed

lemma str_nat_inj: "str_nat m = str_nat n \<Longrightarrow> m = n"
  by (metis str_nat_val)

lemma str_nat_nonempty: "str_nat n \<noteq> []"
  by (subst str_nat.simps) simp

lemma str_nat_no_minus: "CHR ''-'' \<notin> set (str_nat n)"
proof -
  have "CHR ''-'' \<notin> set ''0123456789''" by simp
  with str_nat_chars [of n] show ?thesis by blast
qed

lemma str_int_inj: "str_int i = str_int j \<Longrightarrow> i = j"
proof -
  assume e: "str_int i = str_int j"
  have hd_nat: "hd (str_nat n) \<noteq> CHR ''-''" for n
    using str_nat_no_minus [of n] str_nat_nonempty [of n] by (cases "str_nat n") auto
  show ?thesis
  proof (cases "i < 0")
    case True
    show ?thesis
    proof (cases "j < 0")
      case jn: True
      with True e have "str_nat (nat (- i)) = str_nat (nat (- j))" by (simp add: str_int_def)
      then have "nat (- i) = nat (- j)" by (rule str_nat_inj)
      with True jn show ?thesis by simp
    next
      case False
      with True e have "CHR ''-'' # str_nat (nat (- i)) = str_nat (nat j)" by (simp add: str_int_def)
      then have "hd (str_nat (nat j)) = CHR ''-''" by (metis list.sel(1))
      with hd_nat show ?thesis by simp
    qed
  next
    case False
    show ?thesis
    proof (cases "j < 0")
      case True
      with False e have "str_nat (nat i) = CHR ''-'' # str_nat (nat (- j))" by (simp add: str_int_def)
      then have "hd (str_nat (nat i)) = CHR ''-''" by simp
      with hd_nat show ?thesis by simp
    next
      case jp: False
      with False e have "str_nat (nat i) = str_nat (nat j)" by (simp add: str_int_def)
      then have "nat i = nat j" by (rule str_nat_inj)
      with False jp show ?thesis by simp
    qed
  qed
qed

lemma str_int_chars: "set (str_int i) \<subseteq> set ''-0123456789''"
proof (cases "i < 0")
  case True
  have "set (str_nat (nat (- i))) \<subseteq> set ''-0123456789''"
    using str_nat_chars [of "nat (- i)"] set_subset_Cons [of "''0123456789''" "CHR ''-''"]
    by (rule subset_trans)
  with True show ?thesis by (simp add: str_int_def)
next
  case False
  have "set (str_nat (nat i)) \<subseteq> set ''-0123456789''"
    using str_nat_chars [of "nat i"] set_subset_Cons [of "''0123456789''" "CHR ''-''"]
    by (rule subset_trans)
  with False show ?thesis by (simp add: str_int_def)
qed

lemma str_int_no_sep: "CHR ''x'' \<notin> set (str_int i)" "CHR ''_'' \<notin> set (str_int i)"
proof -
  have x: "CHR ''x'' \<notin> set ''-0123456789''" and u: "CHR ''_'' \<notin> set ''-0123456789''"
    by simp_all
  from x str_int_chars [of i] show "CHR ''x'' \<notin> set (str_int i)" by blast
  from u str_int_chars [of i] show "CHR ''_'' \<notin> set (str_int i)" by blast
qed

lemma split_at_separator:
  assumes "c \<notin> set xs" and "c \<notin> set xs'" and "xs @ c # ys = xs' @ c # ys'"
  shows "xs = xs' \<and> ys = ys'"
proof -
  have t: "takeWhile (\<lambda>y. y \<noteq> c) (zs @ c # ws) = zs" if "c \<notin> set zs" for zs ws
    using that by (induction zs) auto
  have d: "dropWhile (\<lambda>y. y \<noteq> c) (zs @ c # ws) = c # ws" if "c \<notin> set zs" for zs ws
    using that by (induction zs) auto
  from t [OF assms(1), of ys] t [OF assms(2), of ys'] assms(3) have "xs = xs'" by simp
  moreover from d [OF assms(1), of ys] d [OF assms(2), of ys'] assms(3) have "ys = ys'" by simp
  ultimately show ?thesis by simp
qed


section \<open>Properties of the widget checks\<close>




lemma widget_exists_NonWidget: "widget_exists (NonWidget b) = Inr False"
  by (simp add: widget_exists_def widget_exists_body_def)



lemma safe_label_update_eq: "safe_label_update = safe_button_update"
  by (intro ext) (simp add: safe_label_update_def safe_button_update_def)



text \<open>On a widget of a frame: nothing happens unless the window exists and every option
  is one the widget has; then all options are set.\<close>

lemma safe_button_update_widget:
  "safe_button_update (TkWidget w) kw =
     Inr (TkWidget (if w_live w = Live \<and> list_all known_option (map fst kw)
                    then foldl set_option w kw else w))"
  by (cases "w_live w")
     (simp_all add: safe_button_update_def safe_update_body_def winfo_exists_def config_def)

lemma on_widget_safe:
  "on_widget safe_button_update w kw =
     (if w_live w = Live \<and> list_all known_option (map fst kw) then foldl set_option w kw else w)"
  "on_widget safe_label_update w kw =
     (if w_live w = Live \<and> list_all known_option (map fst kw) then foldl set_option w kw else w)"
  by (simp_all add: on_widget_def safe_label_update_eq safe_button_update_widget)

lemma on_widget_live [simp]:
  "w_live (on_widget safe_button_update w kw) = w_live w"
  "w_live (on_widget safe_label_update w kw) = w_live w"
proof -
  have "w_live (foldl set_option v kw) = w_live v" for v
    by (induction kw arbitrary: v) auto
  then show "w_live (on_widget safe_button_update w kw) = w_live w"
    and "w_live (on_widget safe_label_update w kw) = w_live w"
    by (simp_all add: on_widget_safe)
qed



section \<open>Properties of VideoFrame\<close>

subsection \<open>Choosing a slot\<close>

text \<open>A slot is free for a newcomer when it is inactive or has no participant.\<close>

lemma preferred_slot_four:
  "preferred_slot [(0, s0), (1, s1), (2, s2), (3, s3)] [1, 3, 2] =
     (if \<not> active s1 \<or> participant_id s1 = None then Some 1
      else if \<not> active s3 \<or> participant_id s3 = None then Some 3
      else if \<not> active s2 \<or> participant_id s2 = None then Some 2
      else None)"
  by simp

lemma fallback_slot_four:
  "fallback_slot [(0, s0), (1, s1), (2, s2), (3, s3)] [1 ..< 4] =
     Inr (if \<not> active s1 then Some 1 else if \<not> active s2 then Some 2
          else if \<not> active s3 then Some 3 else None)"
proof -
  have "[1 ..< 4] = [1, 2, 3 :: nat]" by (simp add: upt_rec)
  then show ?thesis by simp
qed

lemma get_video_slot_stable_four:
  assumes "video_slots vf = [(0, s0), (1, s1), (2, s2), (3, s3)]"
    and "client_id \<noteq> ''local''"
  shows "get_video_slot_stable client_id vf =
     (if participant_id s0 = Some client_id then Some 0
      else if participant_id s1 = Some client_id then Some 1
      else if participant_id s2 = Some client_id then Some 2
      else if participant_id s3 = Some client_id then Some 3
      else if \<not> active s1 \<or> participant_id s1 = None then Some 1
      else if \<not> active s3 \<or> participant_id s3 = None then Some 3
      else if \<not> active s2 \<or> participant_id s2 = None then Some 2
      else None)"
  using assms fallback_slot_four [of s0 s1 s2 s3]
  by (simp add: get_video_slot_stable_def get_video_slot_stable_body_def)

text \<open>
  C2. In a frame with its four slots, where slot 0 does not hold the client (it holds
  \<open>'local'\<close>), \<open>_get_video_slot_stable\<close> for a remote client returns the slot that already
  holds the client if there is one; otherwise the first of the slots 1, 3, 2 that is
  inactive or has no participant; it never returns slot 0; and it returns \<open>None\<close> exactly
  when each of the slots 1, 2 and 3 is active and holds another client.
\<close>

theorem get_video_slot_stable_preference:
  assumes "video_slots vf = [(0, s0), (1, s1), (2, s2), (3, s3)]"
    and "client_id \<noteq> ''local''"
    and "participant_id s0 \<noteq> Some client_id"
  shows "get_video_slot_stable client_id vf =
           (if participant_id s1 = Some client_id then Some 1
            else if participant_id s2 = Some client_id then Some 2
            else if participant_id s3 = Some client_id then Some 3
            else if \<not> active s1 \<or> participant_id s1 = None then Some 1
            else if \<not> active s3 \<or> participant_id s3 = None then Some 3
            else if \<not> active s2 \<or> participant_id s2 = None then Some 2
            else None)
       \<and> get_video_slot_stable client_id vf \<noteq> Some 0
       \<and> (get_video_slot_stable client_id vf = None \<longleftrightarrow>
            (\<forall>s \<in> {s1, s2, s3}. active s \<and> (\<exists>p. participant_id s = Some p \<and> p \<noteq> client_id)))"
  using assms by (auto simp: get_video_slot_stable_four)

theorem get_video_slot_stable_preference_witness:
  "get_video_slot_stable ''bob''
     \<lparr>video_slots =
        [(0, \<lparr>slot_frame = blank_frame, slot_labels = [[]], participant_id = Some ''local'', active = True\<rparr>),
         (1, \<lparr>slot_frame = blank_frame, slot_labels = [[]], participant_id = Some ''alice'', active = True\<rparr>),
         (2, \<lparr>slot_frame = blank_frame, slot_labels = [[]], participant_id = None, active = False\<rparr>),
         (3, \<lparr>slot_frame = blank_frame, slot_labels = [[]], participant_id = None, active = False\<rparr>)],
      participant_videos = Map.empty\<rparr> = Some 3"
  using get_video_slot_stable_preference
    [of "\<lparr>video_slots =
        [(0, \<lparr>slot_frame = blank_frame, slot_labels = [[]], participant_id = Some ''local'', active = True\<rparr>),
         (1, \<lparr>slot_frame = blank_frame, slot_labels = [[]], participant_id = Some ''alice'', active = True\<rparr>),
         (2, \<lparr>slot_frame = blank_frame, slot_labels = [[]], participant_id = None, active = False\<rparr>),
         (3, \<lparr>slot_frame = blank_frame, slot_labels = [[]], participant_id = None, active = False\<rparr>)],
      participant_videos = Map.empty\<rparr>"
      "\<lparr>slot_frame = blank_frame, slot_labels = [[]], participant_id = Some ''local'', active = True\<rparr>"
      "\<lparr>slot_frame = blank_frame, slot_labels = [[]], participant_id = Some ''alice'', active = True\<rparr>"
      "\<lparr>slot_frame = blank_frame, slot_labels = [[]], participant_id = None, active = False\<rparr>"
      "\<lparr>slot_frame = blank_frame, slot_labels = [[]], participant_id = None, active = False\<rparr>"
      "''bob''"]
  by simp

subsection \<open>Assigning the participants to the slots\<close>




lemma map_fst_dict_set: "k \<in> fst ` set sl \<Longrightarrow> map fst (dict_set sl k v) = map fst sl"
  by (induction sl) force+


lemma length_dict_set: "k \<in> fst ` set sl \<Longrightarrow> length (dict_set sl k v) = length sl"
  using map_fst_dict_set [of k sl v] by (metis length_map)






lemma record_participants_slots [simp]:
  "video_slots (record_participants participants vf) = video_slots vf"
  by (induction participants vf rule: record_participants.induct)
     (simp_all add: update_participant_info_def Let_def)

lemma clear_remote_slots_keys [simp]: "map fst (clear_remote_slots sl) = map fst sl"
  by (induction sl) (auto simp: clear_remote_slots_def clear_slot_def)





section \<open>Properties of AudioFrame\<close>

lemma toggle_audio_events:
  "AudioCallback v \<in> set (fst (snd (toggle_audio af))) \<Longrightarrow>
     v = (enabled (fst (toggle_audio af)) \<and> \<not> muted (fst (toggle_audio af)))"
  by (auto simp: toggle_audio_def Let_def split: option.splits)

lemma toggle_mute_events:
  "AudioCallback v \<in> set (fst (snd (toggle_mute af))) \<Longrightarrow>
     v = (enabled (fst (toggle_mute af)) \<and> \<not> muted (fst (toggle_mute af)))"
  by (auto simp: toggle_mute_def Let_def split: option.splits if_splits prod.splits)

text \<open>With a callback registered the toggle does invoke it, once.\<close>

lemma toggle_audio_invokes:
  "audio_callback af = Some cb \<Longrightarrow>
     fst (snd (toggle_audio af)) = [AudioCallback (\<not> enabled af \<and> \<not> muted af)]"
  by (simp add: toggle_audio_def Let_def)

lemma toggle_mute_invokes:
  "audio_callback af = Some cb \<Longrightarrow> mute_callback af = None \<Longrightarrow>
     fst (snd (toggle_mute af)) = [AudioCallback (enabled af \<and> muted af)]"
  by (simp add: toggle_mute_def Let_def)

lemma mute_button_normal_iff_enabled:
  "audio_reachable af \<Longrightarrow> (mute_button_state af = ''normal'') = enabled af"
  by (induction rule: audio_reachable.induct)
     (auto simp: audio_frame_init_def set_audio_callback_def set_mute_callback_def
                 toggle_audio_def toggle_mute_def Let_def split: option.splits prod.splits)

text \<open>
  C10. In every state an \<open>AudioFrame\<close> can reach, each invocation of the audio callback
  made by \<open>_toggle_audio\<close> or by \<open>_toggle_mute\<close> passes the conjunction "enabled and not
  muted" of the frame as the toggle leaves it, so the value \<open>True\<close> is passed only when
  audio is enabled and unmuted; and the state of the mute button is \<open>'normal'\<close> exactly
  when audio is enabled.
\<close>

theorem audio_callback_never_active_while_muted:
  assumes "audio_reachable af"
  shows "(\<forall>v. AudioCallback v \<in> set (fst (snd (toggle_audio af))) \<longrightarrow>
            v = (enabled (fst (toggle_audio af)) \<and> \<not> muted (fst (toggle_audio af))))
       \<and> (\<forall>v. AudioCallback v \<in> set (fst (snd (toggle_mute af))) \<longrightarrow>
            v = (enabled (fst (toggle_mute af)) \<and> \<not> muted (fst (toggle_mute af))))
       \<and> ((mute_button_state af = ''normal'') = enabled af)"
  using assms toggle_audio_events toggle_mute_events mute_button_normal_iff_enabled
  by blast

theorem audio_callback_never_active_while_muted_witness:
  "audio_reachable (set_audio_callback (\<lambda>b. Returns) audio_frame_init)
   \<and> fst (snd (toggle_audio (set_audio_callback (\<lambda>b. Returns) audio_frame_init)))
       = [AudioCallback True]
   \<and> enabled (fst (toggle_audio (set_audio_callback (\<lambda>b. Returns) audio_frame_init)))
   \<and> \<not> muted (fst (toggle_audio (set_audio_callback (\<lambda>b. Returns) audio_frame_init)))
   \<and> mute_button_state (set_audio_callback (\<lambda>b. Returns) audio_frame_init) \<noteq> ''normal''
   \<and> \<not> enabled (set_audio_callback (\<lambda>b. Returns) audio_frame_init)"
proof -
  have r: "audio_reachable (set_audio_callback (\<lambda>b. Returns) audio_frame_init)"
    by (rule audio_reachable.set_audio [OF audio_reachable.init])
  have ev: "fst (snd (toggle_audio (set_audio_callback (\<lambda>b. Returns) audio_frame_init)))
       = [AudioCallback True]"
    by (simp add: toggle_audio_def set_audio_callback_def audio_frame_init_def Let_def)
  have en: "\<not> enabled (set_audio_callback (\<lambda>b. Returns) audio_frame_init)"
    by (simp add: set_audio_callback_def audio_frame_init_def)
  have "AudioCallback True
          \<in> set (fst (snd (toggle_audio (set_audio_callback (\<lambda>b. Returns) audio_frame_init))))"
    by (simp add: ev)
  with audio_callback_never_active_while_muted [OF r]
  have "enabled (fst (toggle_audio (set_audio_callback (\<lambda>b. Returns) audio_frame_init)))
      \<and> \<not> muted (fst (toggle_audio (set_audio_callback (\<lambda>b. Returns) audio_frame_init)))"
    by blast
  moreover from audio_callback_never_active_while_muted [OF r] en
  have "mute_button_state (set_audio_callback (\<lambda>b. Returns) audio_frame_init) \<noteq> ''normal''"
    by blast
  ultimately show ?thesis using r ev en
    by blast
qed

section \<open>Properties of ScreenShareFrame\<close>

subsection \<open>Presenter display and request timeout\<close>

lemma on_widget_live_update:
  assumes "w_live w = Live" "list_all known_option (map fst kw)"
  shows "on_widget safe_button_update w kw = foldl set_option w kw"
    and "on_widget safe_label_update w kw = foldl set_option w kw"
  using assms by (simp_all add: on_widget_safe)







lemma toggle_request_schedules:
  assumes "w_live (share_button s) = Live"
    and "w_text (share_button s) = ''Request Presenter Role''"
    and "screen_share_callback s = Some cb" and "cb True = Returns"
  shows "ss_timers (fst (toggle_screen_share s)) = ss_timers s @ [(10000, ResetPresenterRequestTimeout)]"
    and "w_text (share_button (fst (toggle_screen_share s))) = ''Requesting...''"
    and "w_state (share_button (fst (toggle_screen_share s))) = ''disabled''"
    and "fst (snd (toggle_screen_share s)) = [True]"
  using assms
  by (simp_all add: toggle_screen_share_def toggle_body_def call_def Let_def on_widget_safe
        known_option_def)

lemma reset_timeout_pending:
  assumes "w_live (share_button s) = Live" and "w_live (sharing_status s) = Live"
    and "w_text (share_button s) = ''Requesting...''"
  shows "snd (reset_presenter_request_timeout s) = None"
    and "w_state (share_button (fst (reset_presenter_request_timeout s))) = ''normal''"
    and "w_text (share_button (fst (reset_presenter_request_timeout s))) = ''Request Presenter Role''"
    and "w_text (sharing_status (fst (reset_presenter_request_timeout s))) = ''Request timed out - try again''"
  using assms
  by (simp_all add: reset_presenter_request_timeout_def cget_text_def Let_def on_widget_safe
        known_option_def)

lemma reset_timeout_answered:
  assumes "w_live (share_button s) = Live" and "w_text (share_button s) \<noteq> ''Requesting...''"
  shows "reset_presenter_request_timeout s = (s, None)"
  using assms by (simp add: reset_presenter_request_timeout_def cget_text_def)

text \<open>
  C5. With the button and the status label in existence: a click on "Request Presenter
  Role" whose callback returns registers \<open>_reset_presenter_request_timeout\<close> to run after
  10000 ms and leaves the button reading "Requesting..."; that handler, when the button
  still reads "Requesting...", sets the button to state \<open>'normal'\<close> with the text "Request
  Presenter Role" and the status to "Request timed out - try again"; when the button
  reads anything else it changes nothing.
\<close>

theorem presenter_request_timeout:
  assumes "w_live (share_button s) = Live" and "w_live (sharing_status s) = Live"
  shows "(w_text (share_button s) = ''Request Presenter Role''
            \<and> (\<exists>cb. screen_share_callback s = Some cb \<and> cb True = Returns) \<longrightarrow>
          ss_timers (fst (toggle_screen_share s))
            = ss_timers s @ [(10000, ResetPresenterRequestTimeout)]
          \<and> w_text (share_button (fst (toggle_screen_share s))) = ''Requesting...'')
       \<and> run_timer ResetPresenterRequestTimeout s = reset_presenter_request_timeout s
       \<and> (w_text (share_button s) = ''Requesting...'' \<longrightarrow>
            snd (reset_presenter_request_timeout s) = None
          \<and> w_state (share_button (fst (reset_presenter_request_timeout s))) = ''normal''
          \<and> w_text (share_button (fst (reset_presenter_request_timeout s))) = ''Request Presenter Role''
          \<and> w_text (sharing_status (fst (reset_presenter_request_timeout s)))
              = ''Request timed out - try again'')
       \<and> (w_text (share_button s) \<noteq> ''Requesting...'' \<longrightarrow>
            reset_presenter_request_timeout s = (s, None))"
  using toggle_request_schedules [OF assms(1)] reset_timeout_pending [OF assms]
        reset_timeout_answered [OF assms(1)]
  by auto


theorem presenter_request_timeout_witness:
  "ss_timers (fst (toggle_screen_share (ss_frame_init\<lparr>share_button := \<lparr>w_live = Live, w_text = ''Request Presenter Role'',
            w_state = ''normal'', w_foreground = []\<rparr>,
          screen_share_callback := Some (\<lambda>b. Returns)\<rparr> :: int ss_frame))) = [(10000, ResetPresenterRequestTimeout)]
   \<and> w_text (share_button (fst (toggle_screen_share (ss_frame_init\<lparr>share_button := \<lparr>w_live = Live, w_text = ''Request Presenter Role'',
            w_state = ''normal'', w_foreground = []\<rparr>,
          screen_share_callback := Some (\<lambda>b. Returns)\<rparr> :: int ss_frame)))) = ''Requesting...''
   \<and> w_state (share_button (fst (reset_presenter_request_timeout (fst (toggle_screen_share (ss_frame_init\<lparr>share_button := \<lparr>w_live = Live, w_text = ''Request Presenter Role'',
            w_state = ''normal'', w_foreground = []\<rparr>,
          screen_share_callback := Some (\<lambda>b. Returns)\<rparr> :: int ss_frame))))))
       = ''normal''
   \<and> w_text (share_button (fst (reset_presenter_request_timeout (fst (toggle_screen_share (ss_frame_init\<lparr>share_button := \<lparr>w_live = Live, w_text = ''Request Presenter Role'',
            w_state = ''normal'', w_foreground = []\<rparr>,
          screen_share_callback := Some (\<lambda>b. Returns)\<rparr> :: int ss_frame))))))
       = ''Request Presenter Role''
   \<and> w_text (sharing_status (fst (reset_presenter_request_timeout (fst (toggle_screen_share (ss_frame_init\<lparr>share_button := \<lparr>w_live = Live, w_text = ''Request Presenter Role'',
            w_state = ''normal'', w_foreground = []\<rparr>,
          screen_share_callback := Some (\<lambda>b. Returns)\<rparr> :: int ss_frame))))))
       = ''Request timed out - try again''"
proof -
  let ?s0 = "(ss_frame_init\<lparr>share_button := \<lparr>w_live = Live, w_text = ''Request Presenter Role'',
            w_state = ''normal'', w_foreground = []\<rparr>,
          screen_share_callback := Some (\<lambda>b. Returns)\<rparr> :: int ss_frame)"
  let ?s1 = "fst (toggle_screen_share ?s0)"
  have l0: "w_live (share_button ?s0) = Live" "w_live (sharing_status ?s0) = Live"
    by (simp_all add: ss_frame_init_def)
  have p0: "w_text (share_button ?s0) = ''Request Presenter Role''
            \<and> (\<exists>cb. screen_share_callback ?s0 = Some cb \<and> cb True = Returns)"
    by simp
  have t0: "ss_timers ?s0 = []" by (simp add: ss_frame_init_def)
  from presenter_request_timeout [OF l0] p0
  have a: "ss_timers ?s1 = ss_timers ?s0 @ [(10000, ResetPresenterRequestTimeout)]"
    and b: "w_text (share_button ?s1) = ''Requesting...''"
    by blast+
  have l1: "w_live (share_button ?s1) = Live" "w_live (sharing_status ?s1) = Live"
    by (simp_all add: toggle_screen_share_def toggle_body_def call_def Let_def ss_frame_init_def)
  from presenter_request_timeout [OF l1] b
  have c: "w_state (share_button (fst (reset_presenter_request_timeout ?s1))) = ''normal''"
    and d: "w_text (share_button (fst (reset_presenter_request_timeout ?s1))) = ''Request Presenter Role''"
    and e: "w_text (sharing_status (fst (reset_presenter_request_timeout ?s1))) = ''Request timed out - try again''"
    by blast+
  from a [unfolded t0] b c d e show ?thesis by simp
qed

subsection \<open>The scaling cache\<close>

text \<open>Two keys are equal only for the same image size and canvas size.\<close>

lemma scale_key_inj:
  assumes "scale_key a b c d = scale_key a' b' c' d'"
  shows "a = a' \<and> b = b' \<and> c = c' \<and> d = d'"
proof -
  from assms have e1: "str_int a @ CHR ''x'' # (str_int b @ CHR ''_'' # (str_int c @ CHR ''x'' # str_int d))
      = str_int a' @ CHR ''x'' # (str_int b' @ CHR ''_'' # (str_int c' @ CHR ''x'' # str_int d'))"
    by (simp add: scale_key_def)
  note s1 = split_at_separator [OF str_int_no_sep(1) str_int_no_sep(1) e1]
  note s2 = split_at_separator [OF str_int_no_sep(2) str_int_no_sep(2) conjunct2 [OF s1]]
  note s3 = split_at_separator [OF str_int_no_sep(1) str_int_no_sep(1) conjunct2 [OF s2]]
  from s1 have "a = a'" by (simp add: str_int_inj)
  moreover from s2 have "b = b'" by (simp add: str_int_inj)
  moreover from s3 have "c = c'" "d = d'" by (simp_all add: str_int_inj)
  ultimately show ?thesis by simp
qed

section \<open>Properties of ChatFrame\<close>

subsection \<open>The history limit\<close>

lemma display_message_history [simp]:
  "display_message entry cf = Inr cf' \<Longrightarrow> chat_history cf' = chat_history cf \<and> max_history_size cf' = max_history_size cf"
  by (auto simp: display_message_def Let_def split: option.splits)

lemma display_message_full:
  "e_username entry \<noteq> None \<Longrightarrow> e_message entry \<noteq> None \<Longrightarrow> e_timestamp entry \<noteq> None \<Longrightarrow>
     \<exists>cf'. display_message entry cf = Inr cf'"
proof -
  assume "e_username entry \<noteq> None" "e_message entry \<noteq> None" "e_timestamp entry \<noteq> None"
  then obtain u m t where "e_username entry = Some u" "e_message entry = Some m" "e_timestamp entry = Some t"
    by blast
  then show ?thesis by (simp add: display_message_def Let_def)
qed

lemma add_message_history:
  "chat_history (add_message now username message timestamp is_own_message message_type cf) =
     (let entry = \<lparr>e_username = Some username, e_message = Some message,
                     e_timestamp = Some (case timestamp of None \<Rightarrow> now | Some t \<Rightarrow> t),
                     e_is_own_message = Some is_own_message, e_message_type = Some message_type\<rparr>
      in if length (chat_history cf @ [entry]) > max_history_size cf
         then slice_last (max_history_size cf) (chat_history cf @ [entry])
         else chat_history cf @ [entry])"
  by (simp add: add_message_def display_message_def Let_def)

lemma add_message_limit [simp]:
  "max_history_size (add_message now username message timestamp is_own_message message_type cf)
     = max_history_size cf"
  by (simp add: add_message_def display_message_def Let_def)

lemma length_slice_last: "length (slice_last n xs) = (if n = 0 then length xs else min n (length xs))"
  by (auto simp: slice_last_def)

lemma add_message_bounded:
  assumes "max_history_size cf = 500"
  shows "length (chat_history (add_message now username message timestamp is_own_message message_type cf)) \<le> 500"
  using assms by (simp add: add_message_history Let_def length_slice_last)

lemma add_message_recent:
  assumes "max_history_size cf = 500"
  shows "chat_history (add_message now username message timestamp is_own_message message_type cf)
     = slice_last 500 (chat_history cf @
         [\<lparr>e_username = Some username, e_message = Some message,
           e_timestamp = Some (case timestamp of None \<Rightarrow> now | Some t \<Rightarrow> t),
           e_is_own_message = Some is_own_message, e_message_type = Some message_type\<rparr>])"
  using assms by (simp add: add_message_history Let_def slice_last_def)


lemma load_entries_complete:
  "list_all complete_entry es \<Longrightarrow>
     snd (load_entries es cf) = None \<and> chat_history (fst (load_entries es cf)) = chat_history cf @ es
     \<and> max_history_size (fst (load_entries es cf)) = max_history_size cf"
proof (induction es arbitrary: cf)
  case Nil
  then show ?case by simp
next
  case (Cons e es)
  then have c: "complete_entry e" and r: "list_all complete_entry es" by simp_all
  from c obtain cf1 where d: "display_message e cf = Inr cf1"
    using display_message_full [of e cf] by (auto simp: complete_entry_def)
  from Cons.IH [OF r, of "cf1\<lparr>chat_history := chat_history cf1 @ [e]\<rparr>"] d
  show ?case using display_message_history [OF d] by simp
qed

lemma load_chat_history_complete:
  assumes "list_all complete_entry history"
  shows "snd (load_chat_history history cf) = None"
    and "chat_history (fst (load_chat_history history cf))
           = sort_key (\<lambda>x. case e_timestamp x of None \<Rightarrow> 0 | Some t \<Rightarrow> t) history"
    and "max_history_size (fst (load_chat_history history cf)) = max_history_size cf"
proof -
  let ?s = "sort_key (\<lambda>x. case e_timestamp x of None \<Rightarrow> 0 | Some t \<Rightarrow> t) history"
  let ?cf1 = "cf\<lparr>chat_display := [], chat_history := []\<rparr>"
  have "list_all complete_entry ?s" using assms by (simp add: list_all_iff)
  note l = load_entries_complete [OF this, of ?cf1]
  obtain cf2 x where r: "load_entries ?s ?cf1 = (cf2, x)" by (cases "load_entries ?s ?cf1")
  with l have x: "x = None" and h: "chat_history cf2 = ?s" and m: "max_history_size cf2 = max_history_size cf"
    by simp_all
  show "snd (load_chat_history history cf) = None"
    by (simp add: load_chat_history_def Let_def r x)
  show "chat_history (fst (load_chat_history history cf)) = ?s"
    by (simp add: load_chat_history_def Let_def r x h show_status_def)
  show "max_history_size (fst (load_chat_history history cf)) = max_history_size cf"
    by (simp add: load_chat_history_def Let_def r x m show_status_def)
qed

text \<open>
  C1. \<open>add_message\<close> (and with it \<open>add_system_message\<close> and \<open>add_error_message\<close>) keeps
  the history at no more than 500 entries, the most recent ones (lemmas
  \<open>add_message_bounded\<close> and \<open>add_message_recent\<close>). \<open>load_chat_history\<close> does not:
  loading 501 entries into a new frame leaves 501 entries in \<open>chat_history\<close> while
  \<open>max_history_size\<close> is 500.
\<close>

theorem load_chat_history_exceeds_limit:
  "length (chat_history (fst (load_chat_history
       (replicate 501 \<lparr>e_username = Some ''ann'', e_message = Some ''hi'', e_timestamp = Some 0,
                        e_is_own_message = Some False, e_message_type = Some ''chat''\<rparr>)
       chat_frame_init))) = 501
   \<and> max_history_size (fst (load_chat_history
       (replicate 501 \<lparr>e_username = Some ''ann'', e_message = Some ''hi'', e_timestamp = Some 0,
                        e_is_own_message = Some False, e_message_type = Some ''chat''\<rparr>)
       chat_frame_init)) = 500
   \<and> snd (load_chat_history
       (replicate 501 \<lparr>e_username = Some ''ann'', e_message = Some ''hi'', e_timestamp = Some 0,
                        e_is_own_message = Some False, e_message_type = Some ''chat''\<rparr>)
       chat_frame_init) = None"
proof -
  let ?e = "\<lparr>e_username = Some ''ann'', e_message = Some ''hi'', e_timestamp = Some 0,
                        e_is_own_message = Some False, e_message_type = Some ''chat''\<rparr>"
  have "complete_entry ?e" by (simp add: complete_entry_def)
  then have c: "list_all complete_entry (replicate 501 ?e)"
    by (simp only: list_all_iff set_replicate_conv_if) simp
  note l = load_chat_history_complete [OF c, of chat_frame_init]
  have "length (chat_history (fst (load_chat_history (replicate 501 ?e) chat_frame_init)))
          = length (replicate 501 ?e)"
    by (simp only: l(2) length_sort)
  then have a: "length (chat_history (fst (load_chat_history (replicate 501 ?e) chat_frame_init))) = 501"
    by (simp only: length_replicate)
  have b: "max_history_size (fst (load_chat_history (replicate 501 ?e) chat_frame_init)) = 500"
    by (simp only: l(3)) (simp add: chat_frame_init_def)
  from a b l(1) show ?thesis by (intro conjI)
qed

subsection \<open>Sending a message\<close>



lemma show_status_entry [simp]: "message_entry (show_status m e cf) = message_entry cf"
  by (simp add: show_status_def Let_def)






section \<open>Properties of FileTransferFrame\<close>

lemma bit_length_bound: "n < 2 ^ k \<Longrightarrow> bit_length n \<le> k"
proof (induction k arbitrary: n)
  case 0
  then show ?case by (simp add: bit_length.simps)
next
  case (Suc k)
  show ?case
  proof (cases "n = 0")
    case True
    then show ?thesis by (simp add: bit_length.simps)
  next
    case False
    from Suc.prems have "n div 2 < 2 ^ k" by simp
    then have "bit_length (n div 2) \<le> k" by (rule Suc.IH)
    with False show ?thesis by (subst bit_length.simps) simp
  qed
qed

lemma true_div_pow2_exact: "n < 2 ^ 53 \<Longrightarrow> true_div_pow2 n p = Inr n"
  using bit_length_bound [of n 53] by (simp add: true_div_pow2_def)

text \<open>What "to the nearest tenth" means: \<open>round_half_even a b\<close> is within one half of
  \<open>a / b\<close>.\<close>

lemma round_half_even_nearest:
  assumes "0 < b"
  shows "2 * (b * round_half_even a b) \<le> 2 * a + b \<and> 2 * a \<le> 2 * (b * round_half_even a b) + b"
proof -
  have d: "a = b * (a div b) + a mod b" by simp
  have m: "a mod b < b" using assms by simp
  show ?thesis
  proof (cases "2 * (a mod b) > b \<or> (2 * (a mod b) = b \<and> odd (a div b))")
    case True
    then have r: "round_half_even a b = a div b + 1" by (simp add: round_half_even_def Let_def)
    have "b * (a div b + 1) = b * (a div b) + b" by (simp add: algebra_simps)
    with d m True show ?thesis unfolding r by linarith
  next
    case False
    then have r: "round_half_even a b = a div b" by (auto simp: round_half_even_def Let_def)
    from False have "2 * (a mod b) \<le> b" by auto
    with d show ?thesis unfolding r by linarith
  qed
qed

lemma size_str_small:
  assumes "fsize < 2 ^ 53"
  shows "size_str fsize = Inr (size_text fsize)"
proof -
  have "nat fsize < 2 ^ 53" using assms by (simp add: nat_less_iff)
  then have e: "true_div_pow2 (nat fsize) p = Inr (nat fsize)" for p
    by (rule true_div_pow2_exact)
  show ?thesis by (simp add: size_str_def size_text_def e format_1f_def)
qed

lemma insert_files_small:
  assumes "\<forall>kv \<in> set files. filesize (snd kv) < 2 ^ 53"
  shows "insert_files files listbox = (listbox @ map file_line files, None)"
  using assms
proof (induction files arbitrary: listbox)
  case Nil
  then show ?case by simp
next
  case (Cons kv files)
  obtain file_id info where kv: "kv = (file_id, info)" by (cases kv)
  from Cons.prems kv have s: "filesize info < 2 ^ 53" and r: "\<forall>kv \<in> set files. filesize (snd kv) < 2 ^ 53"
    by simp_all
  show ?case
    unfolding kv using Cons.IH [OF r] by (simp add: size_str_small [OF s] file_line_def)
qed

lemma dict_set_keys:
  "map fst (dict_set d k v) = (if k \<in> set (map fst d) then map fst d else map fst d @ [k])"
  by (induction d) (force simp: image_iff)+

lemma dict_set_values:
  "(k', v') \<in> set (dict_set d k v) \<Longrightarrow> (k' = k \<and> v' = v) \<or> (k', v') \<in> set d"
  by (induction d) (auto split: if_splits)


lemma map_of_dict_set_same: "map_of (dict_set d k v) k = Some v"
  by (induction d) auto

lemma add_shared_file_files:
  "shared_files (fst (add_shared_file file_id fname fsize upl ft)) =
     dict_set (shared_files ft) file_id \<lparr>filename = fname, filesize = fsize, uploader = upl\<rparr>"
  by (simp add: add_shared_file_def update_file_list_def split: prod.splits)

text \<open>
  C8. For files of fewer than \<open>2 ** 53\<close> bytes (where the division by 1024 or 1048576
  is exact in a double): after \<open>add_shared_file(file_id, filename, filesize, uploader)\<close>
  the listbox has one line per entry of \<open>shared_files\<close>, in the order of the dict, each
  \<open>"<filename> (<size>) - <uploader>"\<close> with the size as \<open>"<filesize> B"\<close> below 1024,
  as \<open>filesize / 1024\<close> to the nearest tenth with \<open>" KB"\<close> below 1048576, and as
  \<open>filesize / 1048576\<close> to the nearest tenth with \<open>" MB"\<close> otherwise; the line of the
  added file is among them; and adding under a \<open>file_id\<close> that is present replaces its
  entry in place, the keys of the dict staying the same and distinct.
\<close>

theorem add_shared_file_listing:
  assumes "\<forall>kv \<in> set (shared_files ft). filesize (snd kv) < 2 ^ 53"
    and "fsize < 2 ^ 53"
    and "distinct (map fst (shared_files ft))"
  shows "snd (add_shared_file file_id fname fsize upl ft) = None
    \<and> file_listbox (fst (add_shared_file file_id fname fsize upl ft))
        = map file_line (shared_files (fst (add_shared_file file_id fname fsize upl ft)))
    \<and> map_of (shared_files (fst (add_shared_file file_id fname fsize upl ft))) file_id
        = Some \<lparr>filename = fname, filesize = fsize, uploader = upl\<rparr>
    \<and> fname @ '' ('' @ size_text fsize @ '') - '' @ upl
        \<in> set (file_listbox (fst (add_shared_file file_id fname fsize upl ft)))
    \<and> map fst (shared_files (fst (add_shared_file file_id fname fsize upl ft)))
        = (if file_id \<in> set (map fst (shared_files ft)) then map fst (shared_files ft)
           else map fst (shared_files ft) @ [file_id])
    \<and> distinct (map fst (shared_files (fst (add_shared_file file_id fname fsize upl ft))))"
proof -
  let ?info = "\<lparr>filename = fname, filesize = fsize, uploader = upl\<rparr>"
  let ?d = "dict_set (shared_files ft) file_id ?info"
  have small: "\<forall>kv \<in> set ?d. filesize (snd kv) < 2 ^ 53"
  proof
    fix kv assume "kv \<in> set ?d"
    then have "(fst kv, snd kv) \<in> set ?d" by simp
    from dict_set_values [OF this] assms(1,2) show "filesize (snd kv) < 2 ^ 53"
      by auto
  qed
  have ins: "insert_files ?d [] = (map file_line ?d, None)"
    using insert_files_small [OF small, of "[]"] by simp
  have a: "snd (add_shared_file file_id fname fsize upl ft) = None"
    by (simp add: add_shared_file_def update_file_list_def ins)
  have b: "file_listbox (fst (add_shared_file file_id fname fsize upl ft)) = map file_line ?d"
    by (simp add: add_shared_file_def update_file_list_def ins)
  have c: "map_of ?d file_id = Some ?info" by (rule map_of_dict_set_same)
  then have "(file_id, ?info) \<in> set ?d" by (rule map_of_SomeD)
  then have "file_line (file_id, ?info) \<in> file_line ` set ?d" by (rule imageI)
  then have "file_line (file_id, ?info) \<in> set (map file_line ?d)" by simp
  then have d: "fname @ '' ('' @ size_text fsize @ '') - '' @ upl \<in> set (map file_line ?d)"
    by (simp add: file_line_def)
  have e: "map fst ?d = (if file_id \<in> set (map fst (shared_files ft)) then map fst (shared_files ft)
           else map fst (shared_files ft) @ [file_id])"
    by (rule dict_set_keys)
  have f: "distinct (map fst ?d)" unfolding e using assms(3) by simp
  show ?thesis
    unfolding add_shared_file_files b using a c d e f by (intro conjI refl)
qed

lemma str_nat_digits: "str_nat 2 = ''2''" "str_nat 0 = ''0''" "str_nat 100 = ''100''"
  by (simp_all add: str_nat.simps digit_char_def)

lemma size_text_2048: "size_text 2048 = ''2.0 KB''"
  by (simp add: size_text_def one_decimal_def round_half_even_def str_nat.simps digit_char_def)

theorem add_shared_file_listing_witness:
  "snd (add_shared_file ''f1'' ''a.txt'' 2048 ''bob''
          \<lparr>shared_files = [(''f1'', \<lparr>filename = ''a.txt'', filesize = 100, uploader = ''bob''\<rparr>)],
           file_listbox = [''a.txt (100 B) - bob'']\<rparr>) = None
   \<and> file_listbox (fst (add_shared_file ''f1'' ''a.txt'' 2048 ''bob''
          \<lparr>shared_files = [(''f1'', \<lparr>filename = ''a.txt'', filesize = 100, uploader = ''bob''\<rparr>)],
           file_listbox = [''a.txt (100 B) - bob'']\<rparr>)) = [''a.txt (2.0 KB) - bob'']
   \<and> map fst (shared_files (fst (add_shared_file ''f1'' ''a.txt'' 2048 ''bob''
          \<lparr>shared_files = [(''f1'', \<lparr>filename = ''a.txt'', filesize = 100, uploader = ''bob''\<rparr>)],
           file_listbox = [''a.txt (100 B) - bob'']\<rparr>))) = [''f1'']"
proof -
  let ?ft = "\<lparr>shared_files = [(''f1'', \<lparr>filename = ''a.txt'', filesize = 100, uploader = ''bob''\<rparr>)],
           file_listbox = [''a.txt (100 B) - bob'']\<rparr>"
  have h1: "\<forall>kv \<in> set (shared_files ?ft). filesize (snd kv) < 2 ^ 53" by simp
  have h2: "(2048::int) < 2 ^ 53" by simp
  have h3: "distinct (map fst (shared_files ?ft))" by simp
  note t = add_shared_file_listing [OF h1 h2 h3, of "''f1''" "''a.txt''" "''bob''"]
  from t have a: "snd (add_shared_file ''f1'' ''a.txt'' 2048 ''bob'' ?ft) = None" by blast
  from t have k: "map fst (shared_files (fst (add_shared_file ''f1'' ''a.txt'' 2048 ''bob'' ?ft))) = [''f1'']"
    by simp
  from t have "file_listbox (fst (add_shared_file ''f1'' ''a.txt'' 2048 ''bob'' ?ft))
        = map file_line (shared_files (fst (add_shared_file ''f1'' ''a.txt'' 2048 ''bob'' ?ft)))"
    by blast
  then have l: "file_listbox (fst (add_shared_file ''f1'' ''a.txt'' 2048 ''bob'' ?ft)) = [''a.txt (2.0 KB) - bob'']"
    by (simp add: add_shared_file_files file_line_def size_text_2048)
  from a l k show ?thesis by (intro conjI)
qed


end
